theory Spec2Isabelle
  imports Main "HOL-Library.Sublist" "HOL-Library.AList"
begin

section \<open>Common data\<close>

text \<open>
  Python \<open>str\<close> values are modelled as \<open>string\<close>, Python \<open>bytes\<close> values as lists of
  characters (a HOL \<open>char\<close> is one byte).
\<close>

type_synonym bytes = "char list"

text \<open>The exceptions raised in the modelled code, each with its message.\<close>

datatype error =
    NotImplementedError string
  | TimeoutError string
  | IOError string
  | NameError string
  | TypeError string
  | AttributeError string
  | IndexError string
  | OtherError string

section \<open>Device locator (\<open>mu/modes/base.py\<close>, class \<open>MicroPythonMode\<close>)\<close>

text \<open>What \<open>QSerialPortInfo\<close> reports for one port.\<close>

record port_info =
  vendorIdentifier :: int
  productIdentifier :: int
  portName :: string
  serialNumber :: string

text \<open>
  An entry of \<open>valid_boards\<close> is a tuple \<open>(vid, pid)\<close>; a \<open>pid\<close> of Python's
  \<open>None\<close> stands for a vendor-only entry.
\<close>

type_synonym board_table = "(int \<times> int option) list"

text \<open>\<open>os_name\<close> is the value of \<open>os.name\<close> on the host.\<close>

definition port_path :: "string \<Rightarrow> string \<Rightarrow> error + string" where
  "port_path os_name port_name =
     (if os_name = ''posix'' then Inr (''/dev/'' @ port_name)
      else if os_name = ''nt'' then Inr port_name
      else Inl (NotImplementedError
                  (''OS '' @ [CHR 0x22] @ os_name @ [CHR 0x22] @ '' not supported.'')))"

text \<open>
  The test of the loop body of \<open>find_device\<close>:
  \<open>(vid, pid) in self.valid_boards or (vid, None) in self.valid_boards\<close>.
\<close>

definition board_match :: "board_table \<Rightarrow> port_info \<Rightarrow> bool" where
  "board_match valid_boards port =
     (let pid = productIdentifier port; vid = vendorIdentifier port
      in (vid, Some pid) \<in> set valid_boards \<or> (vid, None) \<in> set valid_boards)"

text \<open>
  \<open>find_device\<close>: the list argument is the result of \<open>QSerialPortInfo.availablePorts()\<close>.
  The result pair is \<open>(None, None)\<close> or \<open>(port path, serial number)\<close>; an exception
  of \<open>port_path\<close> propagates.
\<close>

fun find_device ::
  "string \<Rightarrow> board_table \<Rightarrow> port_info list \<Rightarrow> error + (string option \<times> string option)"
where
  "find_device os_name valid_boards [] = Inr (None, None)"
| "find_device os_name valid_boards (port # available_ports) =
     (if board_match valid_boards port then
        (case port_path os_name (portName port) of
           Inl e \<Rightarrow> Inl e
         | Inr path \<Rightarrow> Inr (Some path, Some (serialNumber port)))
      else find_device os_name valid_boards available_ports)"

text \<open>\<open>StuduinoBitMode.valid_boards\<close>.\<close>

definition studuinobit_valid_boards :: board_table where
  "studuinobit_valid_boards = [(0x20A0, Some 0x4269)]"

section \<open>Paths (\<open>os.path\<close> on a POSIX host)\<close>

text \<open>
  \<open>posixpath.basename\<close>: everything after the last \<open>/\<close>
  (\<open>i = p.rfind('/') + 1; return p[i:]\<close>).
\<close>

definition basename :: "string \<Rightarrow> string" where
  "basename p = rev (takeWhile (\<lambda>c. c \<noteq> CHR ''/'') (rev p))"

text \<open>
  \<open>posixpath.join(a, *p)\<close>: a component that starts with \<open>/\<close> replaces what was
  joined so far; otherwise it is appended, after a \<open>/\<close> unless the path so far is
  empty or already ends with one.
\<close>

fun join_loop :: "string \<Rightarrow> string list \<Rightarrow> string" where
  "join_loop path [] = path"
| "join_loop path (b # p) =
     (if b \<noteq> [] \<and> hd b = CHR ''/'' then join_loop b p
      else if path = [] \<or> last path = CHR ''/'' then join_loop (path @ b) p
      else join_loop (path @ ''/'' @ b) p)"

definition path_join :: "string \<Rightarrow> string list \<Rightarrow> string" where
  "path_join a p = join_loop a p"

section \<open>Asynchronous file manager (\<open>mu/modes/base.py\<close>)\<close>

text \<open>The signals of class \<open>FileManager\<close>, each with the payload it is emitted with.\<close>

datatype signal =
    on_list_files "string list"
  | on_get_file string
  | on_put_file string
  | on_delete_file string
  | on_list_fail
  | on_get_fail string
  | on_put_fail string
  | on_delete_fail string

text \<open>
  The module \<open>mu.contrib.microfs\<close> and pyserial's \<open>Serial\<close> constructor are not part
  of the modelled sources. They are parameters: for each call, either the exception it
  raises or the value it returns.
\<close>

record microfs =
  microfs_ls :: "error + string list"
  microfs_tree :: "error + string list"
  microfs_get :: "string \<Rightarrow> string \<Rightarrow> error + unit"
  microfs_put :: "string \<Rightarrow> string option \<Rightarrow> error + unit"
  microfs_rm :: "string \<Rightarrow> error + unit"
  pyserial_Serial :: "string \<Rightarrow> error + unit"

text \<open>
  A \<open>FileManager\<close> object: its port, and its attribute \<open>serial\<close>, which exists only
  once \<open>on_start\<close> has set it (reading it before raises \<open>AttributeError\<close>).
\<close>

record file_manager =
  fm_port :: string
  fm_serial :: "unit option"

definition self_serial :: "file_manager \<Rightarrow> error + unit" where
  "self_serial fm =
     (case fm_serial fm of None \<Rightarrow> Inl (AttributeError ''serial'') | Some h \<Rightarrow> Inr h)"

text \<open>Every method returns the signals it emitted, in order.\<close>

definition FileManager_ls :: "microfs \<Rightarrow> file_manager \<Rightarrow> signal list" where
  "FileManager_ls m fm =
     (case self_serial fm of
        Inl ex \<Rightarrow> [on_list_fail]
      | Inr _ \<Rightarrow>
          (case microfs_ls m of
             Inl ex \<Rightarrow> [on_list_fail]
           | Inr result \<Rightarrow> [on_list_files result]))"

definition FileManager_on_start ::
  "microfs \<Rightarrow> file_manager \<Rightarrow> signal list \<times> file_manager" where
  "FileManager_on_start m fm =
     (case pyserial_Serial m (fm_port fm) of
        Inl ex \<Rightarrow> ([on_list_fail], fm)
      | Inr h \<Rightarrow>
          (let fm' = fm\<lparr>fm_serial := Some h\<rparr> in (FileManager_ls m fm', fm')))"

definition FileManager_get ::
  "microfs \<Rightarrow> file_manager \<Rightarrow> string \<Rightarrow> string \<Rightarrow> signal list" where
  "FileManager_get m fm device_filename local_filename =
     (case self_serial fm of
        Inl ex \<Rightarrow> [on_get_fail device_filename]
      | Inr _ \<Rightarrow>
          (case microfs_get m device_filename local_filename of
             Inl ex \<Rightarrow> [on_get_fail device_filename]
           | Inr _ \<Rightarrow> [on_get_file device_filename]))"

definition FileManager_put :: "microfs \<Rightarrow> file_manager \<Rightarrow> string \<Rightarrow> signal list" where
  "FileManager_put m fm local_filename =
     (case self_serial fm of
        Inl ex \<Rightarrow> [on_put_fail local_filename]
      | Inr _ \<Rightarrow>
          (case microfs_put m local_filename None of
             Inl ex \<Rightarrow> [on_put_fail local_filename]
           | Inr _ \<Rightarrow> [on_put_file (basename local_filename)]))"

definition FileManager_delete :: "microfs \<Rightarrow> file_manager \<Rightarrow> string \<Rightarrow> signal list" where
  "FileManager_delete m fm device_filename =
     (case self_serial fm of
        Inl ex \<Rightarrow> [on_delete_fail device_filename]
      | Inr _ \<Rightarrow>
          (case microfs_rm m device_filename of
             Inl ex \<Rightarrow> [on_delete_fail device_filename]
           | Inr _ \<Rightarrow> [on_delete_file device_filename]))"

text \<open>Class \<open>StuduinoBitFileManager\<close> overrides \<open>on_start\<close> and \<open>put\<close> and adds \<open>tree\<close>.\<close>

definition StuduinoBitFileManager_tree :: "microfs \<Rightarrow> file_manager \<Rightarrow> signal list" where
  "StuduinoBitFileManager_tree m fm =
     (case self_serial fm of
        Inl ex \<Rightarrow> [on_list_fail]
      | Inr _ \<Rightarrow>
          (case microfs_tree m of
             Inl ex \<Rightarrow> [on_list_fail]
           | Inr result \<Rightarrow> [on_list_files result]))"

definition StuduinoBitFileManager_on_start ::
  "microfs \<Rightarrow> file_manager \<Rightarrow> signal list \<times> file_manager" where
  "StuduinoBitFileManager_on_start m fm =
     (case pyserial_Serial m (fm_port fm) of
        Inl ex \<Rightarrow> ([on_list_fail], fm)
      | Inr h \<Rightarrow>
          (let fm' = fm\<lparr>fm_serial := Some h\<rparr>
           in (StuduinoBitFileManager_tree m fm', fm')))"

definition StuduinoBitFileManager_put ::
  "microfs \<Rightarrow> file_manager \<Rightarrow> string \<Rightarrow> string \<Rightarrow> signal list" where
  "StuduinoBitFileManager_put m fm local_filename dist =
     (let filename = basename local_filename in
      case self_serial fm of
        Inl ex \<Rightarrow> [on_put_fail local_filename]
      | Inr _ \<Rightarrow>
          (case microfs_put m local_filename (Some (dist @ ''/'' @ filename)) of
             Inl ex \<Rightarrow> [on_put_fail local_filename]
           | Inr _ \<Rightarrow> [on_put_file filename]))"

section \<open>Library installer (\<open>mu/interface/dialogs.py\<close>, \<open>LibraryInstallWidget.install\<close>)\<close>

text \<open>
  The entry stored for one library from the output \<open>out\<close> that \<open>sbfs.send_cmd\<close>
  captured. \<open>py_str\<close> is Python's \<open>str\<close> on a bytes value.
\<close>

definition install_entry :: "(bytes \<Rightarrow> string) \<Rightarrow> bytes \<Rightarrow> string" where
  "install_entry py_str out =
     (if sublist ''Error'' out then ''NG\<newline>'' @ py_str out @ ''\<newline>''
      else ''OK\<newline>'' @ py_str out @ ''\<newline>'')"

text \<open>
  The loop over the requested libraries. \<open>send_cmd\<close> stands for \<open>sbfs.send_cmd\<close> on
  the open session: the \<open>IOError\<close> it raises or the pair \<open>(out, err)\<close>. The result
  dictionary keeps insertion order; an \<open>IOError\<close> ends the whole operation.
\<close>

fun install_loop ::
  "(string list \<Rightarrow> error + bytes \<times> bytes) \<Rightarrow> (bytes \<Rightarrow> string) \<Rightarrow> string list \<Rightarrow>
   (string \<times> string) list \<Rightarrow> error + (string \<times> string) list"
where
  "install_loop send_cmd py_str [] result = Inr result"
| "install_loop send_cmd py_str (lib # libs) result =
     (let pip_command = ''upip.install('' @ [CHR 0x27] @ lib @ [CHR 0x27] @ '')'';
          command = [''import upip'', pip_command]
      in case send_cmd command of
           Inl e \<Rightarrow> Inl e
         | Inr (out, err) \<Rightarrow>
             install_loop send_cmd py_str libs
               (AList.update lib (install_entry py_str out) result))"

section \<open>Serial session (\<open>QSerialPort\<close> as used by \<open>mu/modes/studuinobit.py\<close>)\<close>

text \<open>
  The operations the code performs on a serial port, with their arguments or results,
  in the order they happen.
\<close>

datatype io_event =
    SetPortName string
  | Open bool
  | SetDataTerminalReady bool
  | Close
  | SetBaudRate nat
  | Write bytes
  | ReadAll bytes
  | WaitTimedOut int

text \<open>
  A \<open>QSerialPort\<close> object. Qt and the device behind the port are not part of the
  modelled sources; their behaviour is the first three fields, which no operation
  changes:
  \<^item> \<open>q_open_ok\<close>: whether \<open>open(QIODevice.ReadWrite)\<close> succeeds once the port has
    a name (with the empty name it fails on every host);
  \<^item> \<open>q_dtr_ok\<close>: whether \<open>isDataTerminalReady()\<close> reports the line as set after
    \<open>setDataTerminalReady(True)\<close>;
  \<^item> \<open>q_arrivals i timeout\<close>: what the \<open>i\<close>-th call of \<open>waitForReadyRead\<close> on this
    port meets when called with \<open>timeout\<close>: \<open>Some data\<close> if new data arrives within the
    timeout, \<open>None\<close> if the call reports that nothing arrived.
  The other fields are the state of the object; \<open>q_log\<close> records every operation.
\<close>

record qserialport =
  q_open_ok :: bool
  q_dtr_ok :: bool
  q_arrivals :: "nat \<Rightarrow> int \<Rightarrow> bytes option"
  q_name :: string
  q_is_open :: bool
  q_dtr :: bool
  q_baud :: "nat option"
  q_waits :: nat
  q_inbuf :: bytes
  q_log :: "io_event list"

definition setPortName :: "string \<Rightarrow> qserialport \<Rightarrow> qserialport" where
  "setPortName name s = s\<lparr>q_name := name, q_log := q_log s @ [SetPortName name]\<rparr>"

definition open_ReadWrite :: "qserialport \<Rightarrow> bool \<times> qserialport" where
  "open_ReadWrite s =
     (let opened = (q_open_ok s \<and> q_name s \<noteq> [])
      in (opened, s\<lparr>q_is_open := opened, q_log := q_log s @ [Open opened]\<rparr>))"

definition setDataTerminalReady :: "bool \<Rightarrow> qserialport \<Rightarrow> qserialport" where
  "setDataTerminalReady v s =
     s\<lparr>q_dtr := (v \<and> q_dtr_ok s), q_log := q_log s @ [SetDataTerminalReady v]\<rparr>"

definition isDataTerminalReady :: "qserialport \<Rightarrow> bool" where
  "isDataTerminalReady s = q_dtr s"

definition close_port :: "qserialport \<Rightarrow> qserialport" where
  "close_port s = s\<lparr>q_is_open := False, q_log := q_log s @ [Close]\<rparr>"

definition setBaudRate :: "nat \<Rightarrow> qserialport \<Rightarrow> qserialport" where
  "setBaudRate b s = s\<lparr>q_baud := Some b, q_log := q_log s @ [SetBaudRate b]\<rparr>"

definition port_write :: "bytes \<Rightarrow> qserialport \<Rightarrow> qserialport" where
  "port_write data s = s\<lparr>q_log := q_log s @ [Write data]\<rparr>"

definition waitForReadyRead :: "int \<Rightarrow> qserialport \<Rightarrow> bool \<times> qserialport" where
  "waitForReadyRead timeout s =
     (case q_arrivals s (q_waits s) timeout of
        None \<Rightarrow>
          (False, s\<lparr>q_waits := Suc (q_waits s), q_log := q_log s @ [WaitTimedOut timeout]\<rparr>)
      | Some data \<Rightarrow>
          (True, s\<lparr>q_waits := Suc (q_waits s), q_inbuf := q_inbuf s @ data\<rparr>))"

definition readAll :: "qserialport \<Rightarrow> bytes \<times> qserialport" where
  "readAll s = (q_inbuf s, s\<lparr>q_inbuf := [], q_log := q_log s @ [ReadAll (q_inbuf s)]\<rparr>)"

text \<open>
  \<open>open_serial_link\<close> (the same text in \<open>studuinobit.py\<close> and in \<open>dialogs.py\<close>). The
  first argument is the object that \<open>QSerialPort()\<close> creates; the result holds the
  exception raised, if any, and the object now stored in \<open>self.serial\<close>. The port
  argument is \<open>None\<close> when it comes from a \<open>find_device\<close> that found nothing:
  \<open>setPortName\<close> takes \<open>None\<close> as the null string (\<open>qstring\<close>), \<open>open\<close> then fails, and
  the message of the \<open>IOError\<close> is formatted with \<open>None\<close> (\<open>format_port\<close>).

  In the branch taken when \<open>isDataTerminalReady()\<close> is false, the statement after
  \<open>self.serial.close()\<close> is \<open>pyser = serial.Serial(port)\<close>. Neither module binds the
  name \<open>serial\<close>: \<open>studuinobit.py\<close> has \<open>from serial import Serial\<close>, which binds
  \<open>Serial\<close> only, and \<open>dialogs.py\<close> imports nothing of pyserial. Evaluating the name
  raises \<open>NameError\<close>, so the statements after it (\<open>pyser.dtr = True\<close>,
  \<open>pyser.close()\<close>, the second \<open>open\<close> and \<open>setBaudRate\<close>) are not reached.
\<close>

definition qstring :: "string option \<Rightarrow> string" where
  "qstring port = (case port of None \<Rightarrow> [] | Some name \<Rightarrow> name)"

definition format_port :: "string option \<Rightarrow> string" where
  "format_port port = (case port of None \<Rightarrow> ''None'' | Some name \<Rightarrow> name)"

definition open_serial_link ::
  "qserialport \<Rightarrow> string option \<Rightarrow> (error + unit) \<times> qserialport" where
  "open_serial_link new_port port =
     (let s0 = setPortName (qstring port) new_port;
          (opened, s1) = open_ReadWrite s0
      in if opened then
           (let s2 = setDataTerminalReady True s1
            in if \<not> isDataTerminalReady s2 then
                 (let s3 = close_port s2 in (Inl (NameError ''serial''), s3))
               else (Inr (), setBaudRate 115200 s2))
         else (Inl (IOError (''Cannot connect to device on port '' @ format_port port)), s1))"

section \<open>Line protocol and reboot handshake (\<open>mu/modes/studuinobit.py\<close>)\<close>

text \<open>
  The loop of \<open>read_until\<close>. It has no bound of its own: it runs as long as every wait
  reports data and the token is not in the buffer. \<open>fuel\<close> bounds the number of
  iterations; \<open>None\<close> says that the loop was still running when the fuel ran out.
  At the \<open>break\<close> the loop hands over the buffer and the port.
\<close>

fun read_until_loop ::
  "nat \<Rightarrow> bytes \<Rightarrow> int \<Rightarrow> bytes \<Rightarrow> qserialport \<Rightarrow> ((error + bytes) \<times> qserialport) option"
where
  "read_until_loop 0 token timeout buff s = None"
| "read_until_loop (Suc fuel) token timeout buff s =
     (case waitForReadyRead timeout s of
        (False, s1) \<Rightarrow> Some (Inl (TimeoutError ''waitForReadyRead method timeout''), s1)
      | (True, s1) \<Rightarrow>
          (let (data, s2) = readAll s1;
               buff' = buff @ data
           in if sublist token buff' then Some (Inr buff', s2)
              else read_until_loop fuel token timeout buff' s2))"

text \<open>
  \<open>read_until\<close> starts from an empty buffer. After the loop the function ends without
  a \<open>return\<close> statement, so its value is Python's \<open>None\<close>, written \<open>None\<close> here in the
  type \<open>bytes option\<close>; the buffer is a local variable and is dropped.
\<close>

definition read_until ::
  "nat \<Rightarrow> bytes \<Rightarrow> int \<Rightarrow> qserialport \<Rightarrow> ((error + bytes option) \<times> qserialport) option"
where
  "read_until fuel token timeout s =
     (case read_until_loop fuel token timeout [] s of
        None \<Rightarrow> None
      | Some (Inl e, s') \<Rightarrow> Some (Inl e, s')
      | Some (Inr buff, s') \<Rightarrow> Some (Inr None, s'))"

text \<open>
  \<open>reboot(self, serial)\<close>. In every caller \<open>serial\<close> is \<open>self.serial\<close>, the port that
  \<open>self.read_until\<close> reads, so one port is threaded through. \<open>time.sleep(0.01)\<close> has
  no effect on the port. Both reads use the default timeout of 5000.
\<close>

definition reboot :: "nat \<Rightarrow> qserialport \<Rightarrow> ((error + unit) \<times> qserialport) option" where
  "reboot fuel serial =
     (let s1 = port_write [CHR 0x03] serial
      in case read_until fuel ''>>> '' 5000 s1 of
           None \<Rightarrow> None
         | Some (Inl e, s2) \<Rightarrow> Some (Inl e, s2)
         | Some (Inr _, s2) \<Rightarrow>
             (let s3 = port_write [CHR 0x01] s2;
                  s4 = port_write (''import machine'' @ [CHR 0x0D, CHR 0x0A]) s3;
                  s5 = port_write (''machine.reset()'' @ [CHR 0x0D, CHR 0x0A]) s4;
                  s6 = port_write [CHR 0x04] s5
              in case read_until fuel ''Execute last selected script.'' 5000 s6 of
                   None \<Rightarrow> None
                 | Some (Inl e, s7) \<Rightarrow> Some (Inl e, s7)
                 | Some (Inr _, s7) \<Rightarrow> Some (Inr (), s7)))"

definition reboot_and_prompt ::
  "nat \<Rightarrow> qserialport \<Rightarrow> ((error + unit) \<times> qserialport) option" where
  "reboot_and_prompt fuel serial =
     (case reboot fuel serial of
        None \<Rightarrow> None
      | Some (Inl e, s1) \<Rightarrow> Some (Inl e, s1)
      | Some (Inr _, s1) \<Rightarrow>
          (let s2 = port_write [CHR 0x03] s1
           in case read_until fuel ''>>> '' 5000 s2 of
                None \<Rightarrow> None
              | Some (Inl e, s3) \<Rightarrow> Some (Inl e, s3)
              | Some (Inr _, s3) \<Rightarrow> Some (Inr (), s3)))"

text \<open>
  What the device sends, read off the behaviour \<open>a\<close> of a port from its \<open>k\<close>-th wait
  on: \<open>received a t k n\<close> is the data of the next \<open>n\<close> waits (with timeout \<open>t\<close>) in
  one piece. \<open>quiet_until a t k n token\<close>: each of the next \<open>n\<close> waits brings data, and
  after none of them the data so far contains the token. \<open>hits_at\<close>: the token is
  complete for the first time with the data of wait \<open>k + n\<close>. \<open>times_out_at\<close>: wait
  \<open>k + n\<close> is the first to report that nothing arrived, and the token was not seen
  before.
\<close>

definition received :: "(nat \<Rightarrow> int \<Rightarrow> bytes option) \<Rightarrow> int \<Rightarrow> nat \<Rightarrow> nat \<Rightarrow> bytes" where
  "received a t k n =
     concat (map (\<lambda>i. case a (k + i) t of Some d \<Rightarrow> d | None \<Rightarrow> []) [0..<n])"

definition quiet_until ::
  "(nat \<Rightarrow> int \<Rightarrow> bytes option) \<Rightarrow> int \<Rightarrow> nat \<Rightarrow> nat \<Rightarrow> bytes \<Rightarrow> bool" where
  "quiet_until a t k n token =
     (\<forall>i<n. a (k + i) t \<noteq> None \<and> \<not> sublist token (received a t k (Suc i)))"

definition hits_at ::
  "(nat \<Rightarrow> int \<Rightarrow> bytes option) \<Rightarrow> int \<Rightarrow> nat \<Rightarrow> nat \<Rightarrow> bytes \<Rightarrow> bool" where
  "hits_at a t k n token =
     (quiet_until a t k n token \<and> a (k + n) t \<noteq> None \<and>
      sublist token (received a t k (Suc n)))"

definition times_out_at ::
  "(nat \<Rightarrow> int \<Rightarrow> bytes option) \<Rightarrow> int \<Rightarrow> nat \<Rightarrow> nat \<Rightarrow> bytes \<Rightarrow> bool" where
  "times_out_at a t k n token = (quiet_until a t k n token \<and> a (k + n) t = None)"

text \<open>The \<open>ReadAll\<close> events of \<open>n\<close> successive successful waits from wait \<open>k\<close> on.\<close>

definition reads :: "(nat \<Rightarrow> int \<Rightarrow> bytes option) \<Rightarrow> int \<Rightarrow> nat \<Rightarrow> nat \<Rightarrow> io_event list" where
  "reads a t k n =
     map (\<lambda>i. ReadAll (case a (k + i) t of Some d \<Rightarrow> d | None \<Rightarrow> [])) [0..<n]"

section \<open>Mode orchestrator (\<open>StuduinoBitMode\<close> and its base classes)\<close>

text \<open>
  User-facing texts. \<open>_(...)\<close> is the translation lookup; the texts are modelled as
  written in the source.
\<close>

definition message :: string where
  "message = ''Could not find an attached device.''"

definition information :: string where
  "information =
     ''Please make sure the device is plugged into this computer.\<newline>\<newline>'' @
     ''It must have a version of MicroPython (or CircuitPython) flashed onto it'' @
     '' before the REPL will work.\<newline>\<newline>Finally, press the device's reset button'' @
     '' and wait a few seconds before trying again.''"

definition plotter_information :: string where
  "plotter_information =
     ''Please make sure the device is plugged into this computer.\<newline>\<newline>'' @
     ''It must have a version of MicroPython (or CircuitPython) flashed onto it'' @
     '' before the Plotter will work.\<newline>\<newline>Finally, press the device's reset button'' @
     '' and wait a few seconds before trying again.''"

definition reset_information :: string where
  "reset_information =
     ''Click on the device's reset button, wait a few seconds and then try again.''"

definition repl_fs_message :: string where
  "repl_fs_message = ''REPL and file system cannot work at the same time.''"

definition repl_fs_information :: string where
  "repl_fs_information =
     ''The REPL and file system both use the same USB serial connection. '' @
     ''Only one can be active at any time. Toggle the file system off and try again.''"

definition plotter_fs_message :: string where
  "plotter_fs_message = ''The plotter and file system cannot work at the same time.''"

definition plotter_fs_information :: string where
  "plotter_fs_information =
     ''The plotter and file system both use the same USB serial connection. '' @
     ''Only one can be active at any time. Toggle the file system off and try again.''"

definition fs_busy_message :: string where
  "fs_busy_message = ''File system cannot work at the same time as the REPL or plotter.''"

definition fs_busy_information :: string where
  "fs_busy_information =
     ''The file system and the REPL and plotter use the same USB serial connection. '' @
     ''Toggle the REPL and plotter off and try again.''"

text \<open>
  The attributes of the mode object that the toggles read and write: \<open>repl\<close> and
  \<open>plotter\<close> are \<open>None\<close>, \<open>True\<close> or \<open>False\<close>; \<open>fs\<close> is \<open>None\<close> or the file system
  pane; the timer of the presence poll; the enabled state of the buttons that exist in
  the button bar; and the calls of \<open>view.show_message\<close> so far.
\<close>

record mode =
  repl :: "bool option"
  plotter :: "bool option"
  fs :: "unit option"
  timer_active :: bool
  button_slots :: "(string \<times> bool) list"
  shown_messages :: "(string \<times> string) list"

text \<open>
  What the mode meets outside itself: the host and its ports, and the outcome of the
  calls into the view and the file system that can raise (\<open>None\<close>: no exception).
\<close>

record mode_env =
  env_os_name :: string
  env_available_ports :: "port_info list"
  env_add_repl :: "error option"
  env_add_plotter :: "error option"
  env_save_plot_data :: "error option"

text \<open>Truth value of \<open>self.repl\<close> or \<open>self.plotter\<close>, and of a port path that may be \<open>None\<close>.\<close>

definition truthy :: "bool option \<Rightarrow> bool" where
  "truthy v = (v = Some True)"

definition truthy_str :: "string option \<Rightarrow> bool" where
  "truthy_str v = (case v of None \<Rightarrow> False | Some s \<Rightarrow> s \<noteq> [])"

text \<open>\<open>except IOError\<close> catches \<open>OSError\<close> and its subclasses, \<open>TimeoutError\<close> among them.\<close>

fun is_IOError :: "error \<Rightarrow> bool" where
  "is_IOError (IOError msg) = True"
| "is_IOError (TimeoutError msg) = True"
| "is_IOError e = False"

fun str_of_error :: "error \<Rightarrow> string" where
  "str_of_error (NotImplementedError msg) = msg"
| "str_of_error (TimeoutError msg) = msg"
| "str_of_error (IOError msg) = msg"
| "str_of_error (NameError msg) = msg"
| "str_of_error (TypeError msg) = msg"
| "str_of_error (AttributeError msg) = msg"
| "str_of_error (IndexError msg) = msg"
| "str_of_error (OtherError msg) = msg"

definition show_message :: "string \<Rightarrow> string \<Rightarrow> mode \<Rightarrow> mode" where
  "show_message title info m = m\<lparr>shown_messages := shown_messages m @ [(title, info)]\<rparr>"

text \<open>\<open>BaseMode.set_buttons\<close>: only buttons present in the button bar are touched.\<close>

fun set_buttons :: "(string \<times> bool) list \<Rightarrow> mode \<Rightarrow> mode" where
  "set_buttons [] m = m"
| "set_buttons ((k, v) # kwargs) m =
     set_buttons kwargs
       (if k \<in> fst ` set (button_slots m)
        then m\<lparr>button_slots := AList.update k v (button_slots m)\<rparr> else m)"

definition timer_start :: "mode \<Rightarrow> mode" where
  "timer_start m = (if \<not> timer_active m then m\<lparr>timer_active := True\<rparr> else m)"

definition timer_stop :: "mode \<Rightarrow> mode" where
  "timer_stop m = (if timer_active m then m\<lparr>timer_active := False\<rparr> else m)"

text \<open>\<open>MicroPythonMode.remove_repl\<close> and \<open>StuduinoBitMode.add_repl\<close>.\<close>

definition remove_repl :: "mode \<Rightarrow> mode" where
  "remove_repl m = m\<lparr>repl := Some False\<rparr>"

definition add_repl :: "mode_env \<Rightarrow> mode \<Rightarrow> error + mode" where
  "add_repl env m =
     (case find_device (env_os_name env) studuinobit_valid_boards (env_available_ports env) of
        Inl e \<Rightarrow> Inl e
      | Inr (device_port, serial_number) \<Rightarrow>
          if truthy_str device_port then
            (case env_add_repl env of
               None \<Rightarrow> Inr (m\<lparr>repl := Some True\<rparr>)
             | Some ex \<Rightarrow>
                 if is_IOError ex
                 then Inr (show_message (str_of_error ex) reset_information
                             (m\<lparr>repl := Some False\<rparr>))
                 else Inr m)
          else Inr (show_message message information m))"

text \<open>\<open>MicroPythonMode.toggle_repl\<close>, which \<open>StuduinoBitMode.toggle_repl\<close> calls through \<open>super()\<close>.\<close>

definition MicroPythonMode_toggle_repl :: "mode_env \<Rightarrow> mode \<Rightarrow> error + mode" where
  "MicroPythonMode_toggle_repl env m =
     (if truthy (repl m) then Inr (remove_repl m) else add_repl env m)"

definition toggle_repl :: "mode_env \<Rightarrow> mode \<Rightarrow> error + mode" where
  "toggle_repl env m =
     (if fs m = None then
        (if truthy (repl m) then
           (case MicroPythonMode_toggle_repl env m of
              Inl e \<Rightarrow> Inl e
            | Inr m1 \<Rightarrow>
                if \<not> (truthy (repl m1) \<or> truthy (plotter m1))
                then Inr (timer_stop (set_buttons [(''files_sb'', True), (''flash_sb'', True)] m1))
                else Inr m1)
         else
           (case MicroPythonMode_toggle_repl env m of
              Inl e \<Rightarrow> Inl e
            | Inr m1 \<Rightarrow>
                if truthy (repl m1)
                then Inr (timer_start
                            (set_buttons [(''files_sb'', False), (''flash_sb'', False)] m1))
                else Inr m1))
      else Inr (show_message repl_fs_message repl_fs_information m))"

text \<open>
  \<open>BaseMode.remove_plotter\<close> (which first writes the captured data to a CSV file),
  \<open>MicroPythonMode.add_plotter\<close> and \<open>MicroPythonMode.toggle_plotter\<close>.
\<close>

definition remove_plotter :: "mode_env \<Rightarrow> mode \<Rightarrow> error + mode" where
  "remove_plotter env m =
     (case env_save_plot_data env of
        Some e \<Rightarrow> Inl e
      | None \<Rightarrow> Inr (m\<lparr>plotter := None\<rparr>))"

definition add_plotter :: "mode_env \<Rightarrow> mode \<Rightarrow> error + mode" where
  "add_plotter env m =
     (case find_device (env_os_name env) studuinobit_valid_boards (env_available_ports env) of
        Inl e \<Rightarrow> Inl e
      | Inr (device_port, serial_number) \<Rightarrow>
          if truthy_str device_port then
            (case env_add_plotter env of
               None \<Rightarrow> Inr (m\<lparr>plotter := Some True\<rparr>)
             | Some ex \<Rightarrow>
                 if is_IOError ex
                 then Inr (show_message (str_of_error ex) reset_information
                             (m\<lparr>plotter := Some False\<rparr>))
                 else Inr m)
          else Inr (show_message message plotter_information m))"

definition MicroPythonMode_toggle_plotter :: "mode_env \<Rightarrow> mode \<Rightarrow> error + mode" where
  "MicroPythonMode_toggle_plotter env m =
     (if truthy (plotter m) then remove_plotter env m else add_plotter env m)"

definition toggle_plotter :: "mode_env \<Rightarrow> mode \<Rightarrow> error + mode" where
  "toggle_plotter env m =
     (if fs m = None then
        (case MicroPythonMode_toggle_plotter env m of
           Inl e \<Rightarrow> Inl e
         | Inr m1 \<Rightarrow>
             if truthy (plotter m1)
             then Inr (timer_start
                         (set_buttons [(''files_sb'', False), (''flash_sb'', False)] m1))
             else if \<not> (truthy (repl m1) \<or> truthy (plotter m1))
             then Inr (timer_stop (set_buttons [(''files_sb'', True), (''flash_sb'', True)] m1))
             else Inr m1)
      else Inr (show_message plotter_fs_message plotter_fs_information m))"

text \<open>
  \<open>add_fs\<close>, \<open>remove_fs\<close> and \<open>toggle_files\<close>. The docstring of \<open>toggle_files\<close> reads:
  Check for the existence of the REPL or plotter before toggling the file system
  navigator for the MicroPython device on or off. The test in the code is
  \<open>if self.repl:\<close>.
\<close>

definition add_fs :: "mode_env \<Rightarrow> mode \<Rightarrow> error + mode" where
  "add_fs env m =
     (case find_device (env_os_name env) studuinobit_valid_boards (env_available_ports env) of
        Inl e \<Rightarrow> Inl e
      | Inr (device_port, serial_number) \<Rightarrow>
          if \<not> truthy_str device_port then Inr (show_message message information m)
          else Inr (m\<lparr>fs := Some ()\<rparr>))"

definition remove_fs :: "mode \<Rightarrow> mode" where
  "remove_fs m = m\<lparr>fs := None\<rparr>"

definition toggle_files :: "mode_env \<Rightarrow> mode \<Rightarrow> error + mode" where
  "toggle_files env m =
     (if truthy (repl m) then Inr (show_message fs_busy_message fs_busy_information m)
      else if fs m = None then
        (case add_fs env m of
           Inl e \<Rightarrow> Inl e
         | Inr m1 \<Rightarrow>
             if fs m1 \<noteq> None
             then Inr (set_buttons [(''run'', False), (''repl'', False), (''plotter'', False),
                                    (''flash_sb'', False)] m1)
             else Inr m1)
      else Inr (set_buttons [(''run'', True), (''repl'', True), (''plotter'', True),
                             (''flash_sb'', True)] (remove_fs m)))"

section \<open>Flash operation (\<open>StuduinoBitMode.toggle_flash\<close>)\<close>

text \<open>The steps of the operation that are visible outside the mode, as they are started.\<close>

datatype flash_step =
    FindDevice
  | OpenSerialLink "string option"
  | RegisterWindow_exec
  | SaveAndEncode string string string
  | RebootAndPrompt
  | SbfsPut string string
  | SbfsExecute "string list"
  | Reboot
  | CloseSerialLink
  | ShowMessage string string
  | CriticalBox string string
  | StatusMessage string

text \<open>
  What the operation meets: the host and its ports; the object \<open>QSerialPort()\<close>
  creates; the slot dialog (\<open>exec()\<close> result and the list \<open>register_info\<close>); the current
  tab (text and newline convention, or \<open>None\<close>); and the parts of the repository that are
  not among the modelled sources, as parameters: the constants \<open>HOME_DIRECTORY\<close> and
  \<open>WORKSPACE_NAME\<close> and the function \<open>save_and_encode\<close> of \<open>mu.logic\<close>, and \<open>put\<close> and
  \<open>execute\<close> of \<open>mu.contrib.sbfs\<close> (each with the exception it raises, if any, and the
  port as it leaves it).
\<close>

record flash_env =
  fe_os_name :: string
  fe_available_ports :: "port_info list"
  fe_new_port :: qserialport
  fe_dialog_result :: int
  fe_register_info :: "string list"
  fe_current_tab :: "(string \<times> string) option"
  fe_HOME_DIRECTORY :: string
  fe_WORKSPACE_NAME :: string
  fe_save_and_encode :: "string \<Rightarrow> string \<Rightarrow> string \<Rightarrow> error option"
  fe_sbfs_put :: "string \<Rightarrow> string \<Rightarrow> qserialport \<Rightarrow> error option \<times> qserialport"
  fe_sbfs_execute :: "string list \<Rightarrow> qserialport \<Rightarrow> error option \<times> qserialport"

text \<open>
  The state: \<open>self.serial\<close>, the ports that \<open>close_serial_link\<close> closed and dropped,
  and the steps so far.
\<close>

record flash_state =
  fl_serial :: "qserialport option"
  fl_closed :: "qserialport list"
  fl_steps :: "flash_step list"

definition step :: "flash_step \<Rightarrow> flash_state \<Rightarrow> flash_state" where
  "step e st = st\<lparr>fl_steps := fl_steps st @ [e]\<rparr>"

definition close_serial_link :: "flash_state \<Rightarrow> flash_state" where
  "close_serial_link st =
     (case fl_serial st of
        None \<Rightarrow> st
      | Some s \<Rightarrow>
          st\<lparr>fl_serial := None, fl_closed := fl_closed st @ [close_port s],
             fl_steps := fl_steps st @ [CloseSerialLink]\<rparr>)"

definition session_open :: "flash_state \<Rightarrow> bool" where
  "session_open st = (case fl_serial st of None \<Rightarrow> False | Some s \<Rightarrow> q_is_open s)"

text \<open>The staging path and the command list, as the source builds them.\<close>

definition usr_file_path :: "flash_env \<Rightarrow> string \<Rightarrow> string" where
  "usr_file_path env reg_num =
     path_join (fe_HOME_DIRECTORY env)
       [fe_WORKSPACE_NAME env, ''studuinobit'', ''usr'' @ reg_num @ ''.py'']"

definition set_start_index :: "string \<Rightarrow> string list" where
  "set_start_index reg_num =
     [''import machine'',
      ''machine.nvs_setint('' @ [CHR 0x22] @ ''lastSelected'' @ [CHR 0x22] @ '', '' @
        reg_num @ '')'']"

definition restart_information :: string where
  "restart_information =
     ''Since the transfer is completed, it will work\<newline> if you reconnect the USB cable.''"

text \<open>
  The inner function \<open>save\<close>: the slot dialog, then the staging file. It returns the
  pair \<open>(None, None)\<close>, written \<open>None\<close> here, or the pair \<open>(reg_num, usr_file)\<close>.
\<close>

definition save ::
  "flash_env \<Rightarrow> flash_state \<Rightarrow> (error + (string \<times> string) option) \<times> flash_state" where
  "save env st =
     (let st1 = step RegisterWindow_exec st
      in if fe_dialog_result env = 0 then (Inr None, st1)
         else
           (case fe_register_info env of
              [] \<Rightarrow> (Inl (IndexError ''list index out of range''), st1)
            | reg_num # _ \<Rightarrow>
                (let usr_file = usr_file_path env reg_num
                 in case fe_current_tab env of
                      None \<Rightarrow> (Inl (AttributeError ''text''), st1)
                    | Some (text, newline) \<Rightarrow>
                        (let st2 = step (SaveAndEncode text usr_file newline) st1
                         in case fe_save_and_encode env text usr_file newline of
                              Some e \<Rightarrow> (Inl e, st2)
                            | None \<Rightarrow> (Inr (Some (reg_num, usr_file)), st2)))))"

text \<open>
  The try blocks of \<open>toggle_flash\<close> from the last to the first, each with the handler
  of its \<open>except\<close> clause. In each, \<open>serial\<close> is the port held in \<open>self.serial\<close>.
\<close>

definition flash_restart ::
  "nat \<Rightarrow> flash_env \<Rightarrow> string \<Rightarrow> qserialport \<Rightarrow> flash_state \<Rightarrow> flash_state option" where
  "flash_restart fuel env reg_num serial st =
     (let st1 = step (SbfsExecute (set_start_index reg_num)) st;
          (r, s1) = fe_sbfs_execute env (set_start_index reg_num) serial;
          st2 = st1\<lparr>fl_serial := Some s1\<rparr>
      in case r of
           Some e \<Rightarrow>
             Some (close_serial_link (step (CriticalBox ''Restart Error'' restart_information) st2))
         | None \<Rightarrow>
             (let st3 = step Reboot st2
              in case reboot fuel s1 of
                   None \<Rightarrow> None
                 | Some (Inl e, s2) \<Rightarrow>
                     Some (close_serial_link
                             (step (CriticalBox ''Restart Error'' restart_information)
                                (st3\<lparr>fl_serial := Some s2\<rparr>)))
                 | Some (Inr _, s2) \<Rightarrow>
                     Some (close_serial_link
                             (step (StatusMessage ''Transfer success'')
                                (st3\<lparr>fl_serial := Some s2\<rparr>)))))"

definition flash_upload ::
  "nat \<Rightarrow> flash_env \<Rightarrow> string \<Rightarrow> string \<Rightarrow> qserialport \<Rightarrow> flash_state \<Rightarrow> flash_state option"
where
  "flash_upload fuel env reg_num usr_file serial st =
     (let filename = basename usr_file;
          st1 = step (SbfsPut usr_file (''usr/'' @ filename)) st;
          (r, s1) = fe_sbfs_put env usr_file (''usr/'' @ filename) serial;
          st2 = st1\<lparr>fl_serial := Some s1\<rparr>
      in case r of
           Some e \<Rightarrow>
             Some (close_serial_link
                     (step (CriticalBox ''Uploade Error'' ''Please connect the USB cable again.'')
                        st2))
         | None \<Rightarrow> flash_restart fuel env reg_num s1 st2)"

definition flash_reboot ::
  "nat \<Rightarrow> flash_env \<Rightarrow> string \<Rightarrow> string \<Rightarrow> qserialport \<Rightarrow> flash_state \<Rightarrow> flash_state option"
where
  "flash_reboot fuel env reg_num usr_file serial st =
     (let st1 = step RebootAndPrompt st
      in case reboot_and_prompt fuel serial of
           None \<Rightarrow> None
         | Some (Inl e, s1) \<Rightarrow>
             Some (close_serial_link
                     (step (CriticalBox ''Reboot Error'' ''Please connect the USB cable again.'')
                        (st1\<lparr>fl_serial := Some s1\<rparr>)))
         | Some (Inr _, s1) \<Rightarrow>
             flash_upload fuel env reg_num usr_file s1 (st1\<lparr>fl_serial := Some s1\<rparr>))"

definition flash_save ::
  "nat \<Rightarrow> flash_env \<Rightarrow> qserialport \<Rightarrow> flash_state \<Rightarrow> flash_state option" where
  "flash_save fuel env serial st =
     (case save env st of
        (Inl e, st1) \<Rightarrow>
          Some (close_serial_link
                  (step (CriticalBox ''File Save Error.'' ''Failed to save the file.'') st1))
      | (Inr None, st1) \<Rightarrow> Some (close_serial_link st1)
      | (Inr (Some (reg_num, usr_file)), st1) \<Rightarrow>
          flash_reboot fuel env reg_num usr_file serial st1)"

text \<open>
  \<open>toggle_flash\<close>. Its first try block finds the device and opens the serial link;
  the slot dialog and the staging file come after it. \<open>None\<close>: a \<open>read_until\<close> loop of
  a reboot was still running when the fuel ran out.
\<close>

definition toggle_flash :: "nat \<Rightarrow> flash_env \<Rightarrow> flash_state \<Rightarrow> flash_state option" where
  "toggle_flash fuel env st =
     (let st1 = step FindDevice st
      in case find_device (fe_os_name env) studuinobit_valid_boards (fe_available_ports env) of
           Inl e \<Rightarrow> Some (step (ShowMessage message information) st1)
         | Inr (device_port, serial_number) \<Rightarrow>
             (let st2 = step (OpenSerialLink device_port) st1
              in case open_serial_link (fe_new_port env) device_port of
                   (Inl e, s) \<Rightarrow>
                     Some (step (ShowMessage message information) (st2\<lparr>fl_serial := Some s\<rparr>))
                 | (Inr _, s) \<Rightarrow> flash_save fuel env s (st2\<lparr>fl_serial := Some s\<rparr>)))"

text \<open>
  For stating the order of the flash operation: the eight steps in the order in which
  \<open>toggle_flash\<close> starts them.
\<close>

definition flash_sequence ::
  "flash_env \<Rightarrow> string option \<Rightarrow> string \<Rightarrow> string \<Rightarrow> string \<Rightarrow> flash_step list" where
  "flash_sequence env port reg_num text newline =
     [FindDevice, OpenSerialLink port, RegisterWindow_exec,
      SaveAndEncode text (usr_file_path env reg_num) newline, RebootAndPrompt,
      SbfsPut (usr_file_path env reg_num) (''usr/'' @ basename (usr_file_path env reg_num)),
      SbfsExecute (set_start_index reg_num), Reboot]"

section \<open>Concrete inputs\<close>

text \<open>Devices and inputs at which the properties below are instantiated.\<close>

definition microfs_without_file :: microfs where
  "microfs_without_file =
     \<lparr>microfs_ls = Inr [''main.py''], microfs_tree = Inr [''main.py''],
      microfs_get = (\<lambda>d l. if d = ''main.py'' then Inr () else Inl (IOError ''No such file.'')),
      microfs_put = (\<lambda>l t. Inr ()), microfs_rm = (\<lambda>d. Inr ()),
      pyserial_Serial = (\<lambda>p. Inr ())\<rparr>"

definition microfs_all_fail :: microfs where
  "microfs_all_fail =
     \<lparr>microfs_ls = Inl (IOError ''Could not enter raw REPL.''),
      microfs_tree = Inl (IOError ''Could not enter raw REPL.''),
      microfs_get = (\<lambda>d l. Inl (IOError ''Could not enter raw REPL.'')),
      microfs_put = (\<lambda>l t. Inl (IOError ''Could not enter raw REPL.'')),
      microfs_rm = (\<lambda>d. Inl (IOError ''Could not enter raw REPL.'')),
      pyserial_Serial = (\<lambda>p. Inr ())\<rparr>"

text \<open>
  An open port whose device answers the first two waits with a banner and the prompt
  and is silent afterwards.
\<close>

definition prompt_device :: qserialport where
  "prompt_device =
     \<lparr>q_open_ok = True, q_dtr_ok = True,
      q_arrivals = (\<lambda>i t. if i = 0 then Some ''MicroPython''
                    else if i = 1 then Some '' >>> '' else None),
      q_name = ''/dev/ttyACM0'', q_is_open = True, q_dtr = True, q_baud = Some 115200,
      q_waits = 0, q_inbuf = [], q_log = []\<rparr>"

text \<open>
  An open port whose device goes through the whole handshake: the prompt, then after
  the reset a boot line and the ready line, then the prompt again; and the same once
  more for a second reboot.
\<close>

definition rebooting_device :: qserialport where
  "rebooting_device =
     \<lparr>q_open_ok = True, q_dtr_ok = True,
      q_arrivals = (\<lambda>i t. if i = 0 then Some ''>>> ''
                    else if i = 1 then Some ''rst:0xc (SW_CPU_RESET)''
                    else if i = 2 then Some ''Execute last selected script.''
                    else if i = 3 then Some ''>>> ''
                    else if i = 4 then Some ''>>> ''
                    else if i = 5 then Some ''Execute last selected script.''
                    else None),
      q_name = ''/dev/ttyACM0'', q_is_open = True, q_dtr = True, q_baud = Some 115200,
      q_waits = 0, q_inbuf = [], q_log = []\<rparr>"

text \<open>
  An open port whose device shows the prompt, prints one boot line after the reset and
  never prints the ready line.
\<close>

definition silent_after_reset :: qserialport where
  "silent_after_reset =
     \<lparr>q_open_ok = True, q_dtr_ok = True,
      q_arrivals = (\<lambda>i t. if i = 0 then Some ''MicroPython''
                    else if i = 1 then Some '' >>> ''
                    else if i = 2 then Some ''rst:0xc (SW_CPU_RESET)'' else None),
      q_name = ''/dev/ttyACM0'', q_is_open = True, q_dtr = True, q_baud = Some 115200,
      q_waits = 0, q_inbuf = [], q_log = []\<rparr>"

text \<open>
  A new \<open>QSerialPort\<close> object on a host where the port opens but the toolkit does not
  report the DTR line as set.
\<close>

definition dtr_quirk_port :: qserialport where
  "dtr_quirk_port =
     \<lparr>q_open_ok = True, q_dtr_ok = False, q_arrivals = (\<lambda>i t. None),
      q_name = [], q_is_open = False, q_dtr = False, q_baud = None,
      q_waits = 0, q_inbuf = [], q_log = []\<rparr>"

text \<open>
  An open port whose device shows the prompt and then, caught in a boot loop, prints a
  boot line again and again: every wait reports data, and the ready line never comes.
\<close>

definition boot_loop_device :: qserialport where
  "boot_loop_device =
     \<lparr>q_open_ok = True, q_dtr_ok = True,
      q_arrivals = (\<lambda>i t. if i = 0 then Some ''>>> '' else Some ''rst:0xc''),
      q_name = ''/dev/ttyACM0'', q_is_open = True, q_dtr = True, q_baud = Some 115200,
      q_waits = 0, q_inbuf = [], q_log = []\<rparr>"

text \<open>
  A POSIX host with one Studuino:bit attached, on which the view adds the REPL and the
  plotter without exception; a mode object as it is after construction, with all five
  buttons in the button bar; and the same object once the plotter has been started.
\<close>

definition studuinobit_port :: port_info where
  "studuinobit_port =
     \<lparr>vendorIdentifier = 0x20A0, productIdentifier = 0x4269, portName = ''ttyACM0'',
      serialNumber = ''SB0001''\<rparr>"

definition board_attached :: mode_env where
  "board_attached =
     \<lparr>env_os_name = ''posix'', env_available_ports = [studuinobit_port],
      env_add_repl = None, env_add_plotter = None, env_save_plot_data = None\<rparr>"

definition idle_mode :: mode where
  "idle_mode =
     \<lparr>repl = None, plotter = None, fs = None, timer_active = False,
      button_slots = [(''run'', True), (''flash_sb'', True), (''files_sb'', True),
                      (''repl'', True), (''plotter'', True)],
      shown_messages = []\<rparr>"

definition plotting_mode :: mode where
  "plotting_mode =
     \<lparr>repl = None, plotter = Some True, fs = None, timer_active = True,
      button_slots = [(''run'', True), (''flash_sb'', False), (''files_sb'', False),
                      (''repl'', True), (''plotter'', True)],
      shown_messages = []\<rparr>"

text \<open>
  For the flash operation: the object \<open>QSerialPort()\<close> creates on a host where the
  device goes through two reboots; an environment in which every step succeeds (slot 3
  chosen, a one-line script in the current tab, \<open>sbfs\<close> leaving the port as it finds
  it); the same environment with a port that cannot be opened; and the state before the
  operation.
\<close>

definition new_port :: qserialport where
  "new_port =
     \<lparr>q_open_ok = True, q_dtr_ok = True,
      q_arrivals = (\<lambda>i t. if i = 0 then Some ''>>> ''
                    else if i = 1 then Some ''rst:0xc (SW_CPU_RESET)''
                    else if i = 2 then Some ''Execute last selected script.''
                    else if i = 3 then Some ''>>> ''
                    else if i = 4 then Some ''>>> ''
                    else if i = 5 then Some ''Execute last selected script.''
                    else None),
      q_name = [], q_is_open = False, q_dtr = False, q_baud = None,
      q_waits = 0, q_inbuf = [], q_log = []\<rparr>"

definition flash_env_ok :: flash_env where
  "flash_env_ok =
     \<lparr>fe_os_name = ''posix'', fe_available_ports = [studuinobit_port],
      fe_new_port = new_port, fe_dialog_result = 1, fe_register_info = [''3''],
      fe_current_tab = Some (''print(1)'', ''\<newline>''),
      fe_HOME_DIRECTORY = ''/home/user'', fe_WORKSPACE_NAME = ''mu_code'',
      fe_save_and_encode = (\<lambda>text path newline. None),
      fe_sbfs_put = (\<lambda>local remote s. (None, s)),
      fe_sbfs_execute = (\<lambda>commands s. (None, s))\<rparr>"

definition flash_env_no_open :: flash_env where
  "flash_env_no_open = flash_env_ok\<lparr>fe_new_port := new_port\<lparr>q_open_ok := False\<rparr>\<rparr>"

definition flash_start :: flash_state where
  "flash_start = \<lparr>fl_serial = None, fl_closed = [], fl_steps = []\<rparr>"

text \<open>
  Further environments for the flash operation, each differing from \<open>flash_env_ok\<close> in
  one respect: no board is attached; the user cancels the slot dialog; \<open>sbfs.put\<close>
  raises; the device shows the prompt, prints one boot line after the reset and then
  nothing; the device is caught in a boot loop.
\<close>

definition flash_env_no_device :: flash_env where
  "flash_env_no_device = flash_env_ok\<lparr>fe_available_ports := []\<rparr>"

definition flash_env_cancel :: flash_env where
  "flash_env_cancel = flash_env_ok\<lparr>fe_dialog_result := 0\<rparr>"

definition flash_env_put_fails :: flash_env where
  "flash_env_put_fails =
     flash_env_ok
       \<lparr>fe_sbfs_put := (\<lambda>local remote s. (Some (IOError ''Could not enter raw REPL.''), s))\<rparr>"

definition flash_env_silent :: flash_env where
  "flash_env_silent =
     flash_env_ok\<lparr>fe_new_port := new_port\<lparr>q_arrivals := q_arrivals silent_after_reset\<rparr>\<rparr>"

definition flash_env_boot_loop :: flash_env where
  "flash_env_boot_loop =
     flash_env_ok\<lparr>fe_new_port := new_port\<lparr>q_arrivals := q_arrivals boot_loop_device\<rparr>\<rparr>"

section \<open>Properties of the device locator\<close>

lemma find_device_no_match:
  "(\<forall>p\<in>set P. \<not> board_match B p) \<Longrightarrow> find_device os_name B P = Inr (None, None)"
  by (induction P) simp_all

lemma find_device_not_sentinel:
  "board_match B p \<Longrightarrow> p \<in> set P \<Longrightarrow> find_device os_name B P \<noteq> Inr (None, None)"
  by (induction P) (auto split: sum.splits)

lemma find_device_at_first:
  "i < length P \<Longrightarrow> board_match B (P ! i) \<Longrightarrow> (\<forall>j<i. \<not> board_match B (P ! j)) \<Longrightarrow>
   find_device os_name B P =
     (case port_path os_name (portName (P ! i)) of
        Inl e \<Rightarrow> Inl e
      | Inr path \<Rightarrow> Inr (Some path, Some (serialNumber (P ! i))))"
proof (induction P arbitrary: i)
  case Nil
  then show ?case by simp
next
  case (Cons p P)
  show ?case
  proof (cases i)
    case 0
    with Cons.prems show ?thesis by (simp split: sum.split)
  next
    case (Suc k)
    from Cons.prems(3) Suc have head: "\<not> board_match B p" by auto
    from Cons.prems Suc have "k < length P" "board_match B (P ! k)"
      "\<forall>j<k. \<not> board_match B (P ! j)" by auto
    from Cons.IH [OF this] head Suc show ?thesis by (simp split: sum.split)
  qed
qed

text \<open>
  Claim C3. \<open>find_device\<close> answers with the first port of the scan, in enumeration
  order, whose \<open>(vendor, product)\<close> or \<open>(vendor, None)\<close> pair is in the board table:
  its normalised path (what \<open>port_path\<close> makes of the port name, including the
  exception on an unsupported platform) and its serial number. It answers with the
  sentinel \<open>(None, None)\<close> exactly when no scanned port matches.
\<close>

theorem find_device_first_match:
  "(find_device os_name B P = Inr (None, None) \<longleftrightarrow> (\<forall>p\<in>set P. \<not> board_match B p)) \<and>
   (\<forall>i<length P. board_match B (P ! i) \<longrightarrow> (\<forall>j<i. \<not> board_match B (P ! j)) \<longrightarrow>
      find_device os_name B P =
        (case port_path os_name (portName (P ! i)) of
           Inl e \<Rightarrow> Inl e
         | Inr path \<Rightarrow> Inr (Some path, Some (serialNumber (P ! i)))))"
proof (intro conjI iffI allI impI)
  assume "find_device os_name B P = Inr (None, None)"
  then show "\<forall>p\<in>set P. \<not> board_match B p"
    using find_device_not_sentinel by blast
next
  assume "\<forall>p\<in>set P. \<not> board_match B p"
  then show "find_device os_name B P = Inr (None, None)"
    by (rule find_device_no_match)
next
  fix i
  assume "i < length P" "board_match B (P ! i)" "\<forall>j<i. \<not> board_match B (P ! j)"
  then show "find_device os_name B P =
        (case port_path os_name (portName (P ! i)) of
           Inl e \<Rightarrow> Inl e
         | Inr path \<Rightarrow> Inr (Some path, Some (serialNumber (P ! i))))"
    by (rule find_device_at_first)
qed

text \<open>A witness for C3: the second of three ports is the first that matches.\<close>

theorem find_device_first_match_witness:
  "find_device ''posix'' [(0x20A0, Some 0x4269), (0x0D28, None)]
     [\<lparr>vendorIdentifier = 1, productIdentifier = 2, portName = ''ttyS0'', serialNumber = ''a''\<rparr>,
      \<lparr>vendorIdentifier = 0x0D28, productIdentifier = 7, portName = ''ttyACM1'',
        serialNumber = ''b''\<rparr>,
      \<lparr>vendorIdentifier = 0x20A0, productIdentifier = 0x4269, portName = ''ttyACM0'',
        serialNumber = ''c''\<rparr>]
   = Inr (Some ''/dev/ttyACM1'', Some ''b'')"
  using find_device_first_match [of "''posix''" "[(0x20A0, Some 0x4269), (0x0D28, None)]"
     "[\<lparr>vendorIdentifier = 1, productIdentifier = 2, portName = ''ttyS0'', serialNumber = ''a''\<rparr>,
      \<lparr>vendorIdentifier = 0x0D28, productIdentifier = 7, portName = ''ttyACM1'',
        serialNumber = ''b''\<rparr>,
      \<lparr>vendorIdentifier = 0x20A0, productIdentifier = 0x4269, portName = ''ttyACM0'',
        serialNumber = ''c''\<rparr>]"]
  by (simp add: board_match_def port_path_def)

section \<open>Properties of the port path\<close>

text \<open>
  Claim C8. \<open>port_path\<close> puts \<open>/dev/\<close> before the bare port name on a POSIX host,
  returns the name unchanged on Windows (\<open>os.name = nt\<close>) and raises
  \<open>NotImplementedError\<close> on every other platform. With the Studuino:bit board table
  and the one scanned port (vid 0x20A0, pid 0x4269, name ttyACM0), \<open>find_device\<close> on a
  POSIX host returns the port path \<open>/dev/ttyACM0\<close>.
\<close>

theorem port_path_by_platform:
  "port_path ''posix'' port_name = Inr (''/dev/'' @ port_name) \<and>
   port_path ''nt'' port_name = Inr port_name \<and>
   (os_name \<noteq> ''posix'' \<longrightarrow> os_name \<noteq> ''nt'' \<longrightarrow>
      (\<exists>msg. port_path os_name port_name = Inl (NotImplementedError msg))) \<and>
   find_device ''posix'' studuinobit_valid_boards
     [\<lparr>vendorIdentifier = 0x20A0, productIdentifier = 0x4269, portName = ''ttyACM0'',
       serialNumber = sn\<rparr>]
   = Inr (Some ''/dev/ttyACM0'', Some sn)"
  by (simp add: port_path_def board_match_def studuinobit_valid_boards_def)

theorem port_path_by_platform_witness:
  "''java'' \<noteq> ''posix'' \<and> ''java'' \<noteq> ''nt'' \<and>
   (\<exists>msg. port_path ''java'' ''COM3'' = Inl (NotImplementedError msg))"
  using port_path_by_platform [of "''COM3''" "''java''"] by simp

section \<open>Properties of the file manager\<close>

lemma basename_no_slash: "CHR ''/'' \<notin> set (basename p)"
proof
  assume "CHR ''/'' \<in> set (basename p)"
  then have "CHR ''/'' \<in> set (takeWhile (\<lambda>c. c \<noteq> CHR ''/'') (rev p))"
    by (simp add: basename_def)
  then show False by (auto dest: set_takeWhileD)
qed

lemma basename_differs: "CHR ''/'' \<in> set p \<Longrightarrow> basename p \<noteq> p"
  using basename_no_slash [of p] by auto

text \<open>
  Claim C7. When the get operation fails, be it that \<open>microfs.get\<close> raises (as for a
  device file that does not exist) or that the session is missing, \<open>get\<close> emits
  exactly one signal, \<open>on_get_fail\<close> with the device filename, and no success signal.
  Every operation of the file manager emits exactly one signal per call: the success
  signal or the failure signal of that operation.
\<close>

theorem file_manager_one_notification:
  "((self_serial fm = Inl ex \<or> microfs_get m device_filename local_filename = Inl ex) \<longrightarrow>
      FileManager_get m fm device_filename local_filename = [on_get_fail device_filename]) \<and>
   (FileManager_get m fm device_filename local_filename = [on_get_file device_filename] \<or>
    FileManager_get m fm device_filename local_filename = [on_get_fail device_filename]) \<and>
   (FileManager_put m fm local_filename = [on_put_file (basename local_filename)] \<or>
    FileManager_put m fm local_filename = [on_put_fail local_filename]) \<and>
   (StuduinoBitFileManager_put m fm local_filename dist = [on_put_file (basename local_filename)] \<or>
    StuduinoBitFileManager_put m fm local_filename dist = [on_put_fail local_filename]) \<and>
   (FileManager_delete m fm device_filename = [on_delete_file device_filename] \<or>
    FileManager_delete m fm device_filename = [on_delete_fail device_filename]) \<and>
   ((\<exists>result. FileManager_ls m fm = [on_list_files result]) \<or>
    FileManager_ls m fm = [on_list_fail]) \<and>
   ((\<exists>result. StuduinoBitFileManager_tree m fm = [on_list_files result]) \<or>
    StuduinoBitFileManager_tree m fm = [on_list_fail]) \<and>
   ((\<exists>result. fst (FileManager_on_start m fm) = [on_list_files result]) \<or>
    fst (FileManager_on_start m fm) = [on_list_fail]) \<and>
   ((\<exists>result. fst (StuduinoBitFileManager_on_start m fm) = [on_list_files result]) \<or>
    fst (StuduinoBitFileManager_on_start m fm) = [on_list_fail])"
  by (auto simp: FileManager_get_def FileManager_put_def StuduinoBitFileManager_put_def
      FileManager_delete_def FileManager_ls_def StuduinoBitFileManager_tree_def
      FileManager_on_start_def StuduinoBitFileManager_on_start_def self_serial_def Let_def
      split: sum.splits option.splits)

text \<open>
  A witness for C7: a device on which \<open>microfs.get\<close> raises for the file
  \<open>nothere.py\<close>, which is not on the device.
\<close>

theorem file_manager_one_notification_witness:
  "microfs_get microfs_without_file ''nothere.py'' ''/tmp/nothere.py''
     = Inl (IOError ''No such file.'') \<and>
   FileManager_get microfs_without_file \<lparr>fm_port = ''/dev/ttyACM0'', fm_serial = Some ()\<rparr>
     ''nothere.py'' ''/tmp/nothere.py'' = [on_get_fail ''nothere.py'']"
  using file_manager_one_notification [of "\<lparr>fm_port = ''/dev/ttyACM0'', fm_serial = Some ()\<rparr>"
      "IOError ''No such file.''" microfs_without_file "''nothere.py''" "''/tmp/nothere.py''"]
  by (simp add: microfs_without_file_def)

text \<open>
  Claim C10. For a local path with a directory component (a \<open>/\<close>), the two
  notifications of a put carry different strings: on success the signal carries the
  basename of the local file, on failure the local path as it was given. This holds
  for \<open>FileManager.put\<close> and for \<open>StuduinoBitFileManager.put\<close>; \<open>m1\<close> is a device on
  which the transfer succeeds, \<open>m2\<close> one on which it raises.
\<close>

theorem put_payload_asymmetry:
  assumes "CHR ''/'' \<in> set local_filename"
    and "fm_serial fm = Some h"
    and "microfs_put m1 local_filename None = Inr ()"
    and "microfs_put m1 local_filename (Some (dist @ ''/'' @ basename local_filename)) = Inr ()"
    and "microfs_put m2 local_filename None = Inl e1"
    and "microfs_put m2 local_filename (Some (dist @ ''/'' @ basename local_filename)) = Inl e2"
  shows "FileManager_put m1 fm local_filename = [on_put_file (basename local_filename)] \<and>
         FileManager_put m2 fm local_filename = [on_put_fail local_filename] \<and>
         StuduinoBitFileManager_put m1 fm local_filename dist
           = [on_put_file (basename local_filename)] \<and>
         StuduinoBitFileManager_put m2 fm local_filename dist = [on_put_fail local_filename] \<and>
         basename local_filename \<noteq> local_filename"
  using assms basename_differs [of local_filename]
  by (simp add: FileManager_put_def StuduinoBitFileManager_put_def self_serial_def)

theorem put_payload_asymmetry_witness:
  "FileManager_put microfs_without_file \<lparr>fm_port = ''/dev/ttyACM0'', fm_serial = Some ()\<rparr>
     ''/home/user/mu_code/blink.py'' = [on_put_file ''blink.py''] \<and>
   FileManager_put microfs_all_fail \<lparr>fm_port = ''/dev/ttyACM0'', fm_serial = Some ()\<rparr>
     ''/home/user/mu_code/blink.py'' = [on_put_fail ''/home/user/mu_code/blink.py''] \<and>
   StuduinoBitFileManager_put microfs_without_file
     \<lparr>fm_port = ''/dev/ttyACM0'', fm_serial = Some ()\<rparr> ''/home/user/mu_code/blink.py'' ''usr''
     = [on_put_file ''blink.py''] \<and>
   StuduinoBitFileManager_put microfs_all_fail
     \<lparr>fm_port = ''/dev/ttyACM0'', fm_serial = Some ()\<rparr> ''/home/user/mu_code/blink.py'' ''usr''
     = [on_put_fail ''/home/user/mu_code/blink.py'']"
proof -
  have b: "basename ''/home/user/mu_code/blink.py'' = ''blink.py''"
    by (simp add: basename_def)
  show ?thesis
    using put_payload_asymmetry [of "''/home/user/mu_code/blink.py''"
        "\<lparr>fm_port = ''/dev/ttyACM0'', fm_serial = Some ()\<rparr>" "()" microfs_without_file
        "''usr''" microfs_all_fail "IOError ''Could not enter raw REPL.''"
        "IOError ''Could not enter raw REPL.''"]
    by (simp add: b microfs_without_file_def microfs_all_fail_def)
qed

section \<open>Properties of the error marker\<close>

text \<open>
  Claim C9. Whatever the captured output, the entry recorded for the operation is the
  failed one (\<open>NG\<close>) if and only if the raw captured bytes contain the literal
  \<open>Error\<close>, and the successful one (\<open>OK\<close>) otherwise; an output with
  \<open>Error: bad import\<close> followed by a well-formed prompt is flagged as failed.
\<close>

theorem install_error_marker:
  "(install_entry py_str out = ''NG\<newline>'' @ py_str out @ ''\<newline>'' \<longleftrightarrow> sublist ''Error'' out) \<and>
   (install_entry py_str out = ''OK\<newline>'' @ py_str out @ ''\<newline>'' \<longleftrightarrow> \<not> sublist ''Error'' out) \<and>
   install_entry py_str (''Error: bad import'' @ [CHR 0x0D, CHR 0x0A] @ ''>>> '')
     = ''NG\<newline>'' @ py_str (''Error: bad import'' @ [CHR 0x0D, CHR 0x0A] @ ''>>> '') @ ''\<newline>'' \<and>
   install_loop (\<lambda>c. Inr (out, err)) py_str [lib] []
     = Inr [(lib, if sublist ''Error'' out then ''NG\<newline>'' @ py_str out @ ''\<newline>''
                  else ''OK\<newline>'' @ py_str out @ ''\<newline>'')]"
  by (simp add: install_entry_def sublist_code)

section \<open>Properties of the line protocol\<close>

lemma received_Suc_shift:
  "received a t k (Suc n) = (case a k t of Some d \<Rightarrow> d | None \<Rightarrow> []) @ received a t (Suc k) n"
proof -
  have "[0..<Suc n] = 0 # map Suc [0..<n]"
    by (simp add: upt_conv_Cons map_Suc_upt del: upt_Suc)
  then show ?thesis
    by (simp add: received_def comp_def del: upt_Suc)
qed

lemma reads_Suc_shift:
  "reads a t k (Suc n) = ReadAll (case a k t of Some d \<Rightarrow> d | None \<Rightarrow> []) # reads a t (Suc k) n"
proof -
  have "[0..<Suc n] = 0 # map Suc [0..<n]"
    by (simp add: upt_conv_Cons map_Suc_upt del: upt_Suc)
  then show ?thesis
    by (simp add: reads_def comp_def del: upt_Suc)
qed

lemma read_until_loop_hit:
  assumes "\<forall>i<n. q_arrivals s (q_waits s + i) t \<noteq> None \<and>
             \<not> sublist token (buff @ received (q_arrivals s) t (q_waits s) (Suc i))"
    and "q_arrivals s (q_waits s + n) t \<noteq> None"
    and "sublist token (buff @ received (q_arrivals s) t (q_waits s) (Suc n))"
    and "n < fuel" and "q_inbuf s = []"
  shows "read_until_loop fuel token t buff s =
           Some (Inr (buff @ received (q_arrivals s) t (q_waits s) (Suc n)),
                 s\<lparr>q_waits := q_waits s + Suc n, q_inbuf := [],
                   q_log := q_log s @ reads (q_arrivals s) t (q_waits s) (Suc n)\<rparr>)"
  using assms
proof (induction n arbitrary: fuel buff s)
  case 0
  then obtain f where f: "fuel = Suc f" by (cases fuel) auto
  from 0 obtain d where d: "q_arrivals s (q_waits s) t = Some d" by auto
  with 0 show ?case
    by (simp add: f waitForReadyRead_def readAll_def received_def reads_def)
next
  case (Suc n)
  then obtain f where f: "fuel = Suc f" and fn: "n < f" by (cases fuel) auto
  from Suc.prems(1) obtain d where d: "q_arrivals s (q_waits s) t = Some d"
    and nd: "\<not> sublist token (buff @ d)"
    by (auto simp: received_def dest: spec [of _ 0])
  let ?s2 = "s\<lparr>q_waits := Suc (q_waits s), q_inbuf := [], q_log := q_log s @ [ReadAll d]\<rparr>"
  have step: "read_until_loop fuel token t buff s = read_until_loop f token t (buff @ d) ?s2"
    using d nd Suc.prems(5) by (simp add: f waitForReadyRead_def readAll_def)
  have p1: "\<forall>i<n. q_arrivals ?s2 (q_waits ?s2 + i) t \<noteq> None \<and>
             \<not> sublist token ((buff @ d) @ received (q_arrivals ?s2) t (q_waits ?s2) (Suc i))"
  proof (intro allI impI)
    fix i assume "i < n"
    then have "Suc i < Suc n" by simp
    with Suc.prems(1) have "q_arrivals s (q_waits s + Suc i) t \<noteq> None \<and>
             \<not> sublist token (buff @ received (q_arrivals s) t (q_waits s) (Suc (Suc i)))"
      by blast
    then show "q_arrivals ?s2 (q_waits ?s2 + i) t \<noteq> None \<and>
             \<not> sublist token ((buff @ d) @ received (q_arrivals ?s2) t (q_waits ?s2) (Suc i))"
      using d by (simp add: received_Suc_shift [of _ _ "q_waits s"])
  qed
  have p2: "q_arrivals ?s2 (q_waits ?s2 + n) t \<noteq> None" using Suc.prems(2) by simp
  have p3: "sublist token ((buff @ d) @ received (q_arrivals ?s2) t (q_waits ?s2) (Suc n))"
    using Suc.prems(3) d by (simp add: received_Suc_shift [of _ _ "q_waits s"])
  have p5: "q_inbuf ?s2 = []" by simp
  from Suc.IH [OF p1 p2 p3 fn p5] step d show ?case
    by (simp add: received_Suc_shift [of _ _ "q_waits s"] reads_Suc_shift [of _ _ "q_waits s"])
qed

lemma read_until_loop_timeout:
  assumes "\<forall>i<n. q_arrivals s (q_waits s + i) t \<noteq> None \<and>
             \<not> sublist token (buff @ received (q_arrivals s) t (q_waits s) (Suc i))"
    and "q_arrivals s (q_waits s + n) t = None"
    and "n < fuel" and "q_inbuf s = []"
  shows "read_until_loop fuel token t buff s =
           Some (Inl (TimeoutError ''waitForReadyRead method timeout''),
                 s\<lparr>q_waits := q_waits s + Suc n, q_inbuf := [],
                   q_log := q_log s @ reads (q_arrivals s) t (q_waits s) n @ [WaitTimedOut t]\<rparr>)"
  using assms
proof (induction n arbitrary: fuel buff s)
  case 0
  then obtain f where f: "fuel = Suc f" by (cases fuel) auto
  with 0 show ?case
    by (simp add: f waitForReadyRead_def reads_def)
next
  case (Suc n)
  then obtain f where f: "fuel = Suc f" and fn: "n < f" by (cases fuel) auto
  from Suc.prems(1) obtain d where d: "q_arrivals s (q_waits s) t = Some d"
    and nd: "\<not> sublist token (buff @ d)"
    by (auto simp: received_def dest: spec [of _ 0])
  let ?s2 = "s\<lparr>q_waits := Suc (q_waits s), q_inbuf := [], q_log := q_log s @ [ReadAll d]\<rparr>"
  have step: "read_until_loop fuel token t buff s = read_until_loop f token t (buff @ d) ?s2"
    using d nd Suc.prems(4) by (simp add: f waitForReadyRead_def readAll_def)
  have p1: "\<forall>i<n. q_arrivals ?s2 (q_waits ?s2 + i) t \<noteq> None \<and>
             \<not> sublist token ((buff @ d) @ received (q_arrivals ?s2) t (q_waits ?s2) (Suc i))"
  proof (intro allI impI)
    fix i assume "i < n"
    then have "Suc i < Suc n" by simp
    with Suc.prems(1) have "q_arrivals s (q_waits s + Suc i) t \<noteq> None \<and>
             \<not> sublist token (buff @ received (q_arrivals s) t (q_waits s) (Suc (Suc i)))"
      by blast
    then show "q_arrivals ?s2 (q_waits ?s2 + i) t \<noteq> None \<and>
             \<not> sublist token ((buff @ d) @ received (q_arrivals ?s2) t (q_waits ?s2) (Suc i))"
      using d by (simp add: received_Suc_shift [of _ _ "q_waits s"])
  qed
  have p2: "q_arrivals ?s2 (q_waits ?s2 + n) t = None" using Suc.prems(2) by simp
  have p5: "q_inbuf ?s2 = []" by simp
  from Suc.IH [OF p1 p2 fn p5] step d show ?case
    by (simp add: reads_Suc_shift [of _ _ "q_waits s"])
qed


lemma read_until_hit:
  assumes "hits_at (q_arrivals s) t (q_waits s) n token" and "n < fuel" and "q_inbuf s = []"
  shows "read_until_loop fuel token t [] s =
           Some (Inr (received (q_arrivals s) t (q_waits s) (Suc n)),
                 s\<lparr>q_waits := q_waits s + Suc n, q_inbuf := [],
                   q_log := q_log s @ reads (q_arrivals s) t (q_waits s) (Suc n)\<rparr>)"
    and "read_until fuel token t s =
           Some (Inr None,
                 s\<lparr>q_waits := q_waits s + Suc n, q_inbuf := [],
                   q_log := q_log s @ reads (q_arrivals s) t (q_waits s) (Suc n)\<rparr>)"
proof -
  from assms(1) have
    "\<forall>i<n. q_arrivals s (q_waits s + i) t \<noteq> None \<and>
       \<not> sublist token ([] @ received (q_arrivals s) t (q_waits s) (Suc i))"
    "q_arrivals s (q_waits s + n) t \<noteq> None"
    "sublist token ([] @ received (q_arrivals s) t (q_waits s) (Suc n))"
    by (simp_all add: hits_at_def quiet_until_def)
  from read_until_loop_hit [OF this assms(2,3)]
  show "read_until_loop fuel token t [] s =
           Some (Inr (received (q_arrivals s) t (q_waits s) (Suc n)),
                 s\<lparr>q_waits := q_waits s + Suc n, q_inbuf := [],
                   q_log := q_log s @ reads (q_arrivals s) t (q_waits s) (Suc n)\<rparr>)"
    by simp
  then show "read_until fuel token t s =
           Some (Inr None,
                 s\<lparr>q_waits := q_waits s + Suc n, q_inbuf := [],
                   q_log := q_log s @ reads (q_arrivals s) t (q_waits s) (Suc n)\<rparr>)"
    by (simp add: read_until_def)
qed

lemma read_until_timeout:
  assumes "times_out_at (q_arrivals s) t (q_waits s) n token" and "n < fuel" and "q_inbuf s = []"
  shows "read_until fuel token t s =
           Some (Inl (TimeoutError ''waitForReadyRead method timeout''),
                 s\<lparr>q_waits := q_waits s + Suc n, q_inbuf := [],
                   q_log := q_log s @ reads (q_arrivals s) t (q_waits s) n @ [WaitTimedOut t]\<rparr>)"
proof -
  from assms(1) have
    "\<forall>i<n. q_arrivals s (q_waits s + i) t \<noteq> None \<and>
       \<not> sublist token ([] @ received (q_arrivals s) t (q_waits s) (Suc i))"
    "q_arrivals s (q_waits s + n) t = None"
    by (simp_all add: times_out_at_def quiet_until_def)
  from read_until_loop_timeout [OF this assms(2,3)] show ?thesis
    by (simp add: read_until_def)
qed

lemma reboot_ok:
  assumes "q_inbuf s = []"
    and "hits_at (q_arrivals s) 5000 (q_waits s) n1 ''>>> ''"
    and "hits_at (q_arrivals s) 5000 (q_waits s + Suc n1) n2 ''Execute last selected script.''"
    and "n1 < fuel" and "n2 < fuel"
  shows "reboot fuel s =
           Some (Inr (),
                 s\<lparr>q_waits := q_waits s + Suc n1 + Suc n2, q_inbuf := [],
                   q_log := q_log s @ [Write [CHR 0x03]] @
                     reads (q_arrivals s) 5000 (q_waits s) (Suc n1) @
                     [Write [CHR 0x01], Write (''import machine'' @ [CHR 0x0D, CHR 0x0A]),
                      Write (''machine.reset()'' @ [CHR 0x0D, CHR 0x0A]), Write [CHR 0x04]] @
                     reads (q_arrivals s) 5000 (q_waits s + Suc n1) (Suc n2)\<rparr>)"
proof -
  let ?s1 = "port_write [CHR 0x03] s"
  have r1: "read_until fuel ''>>> '' 5000 ?s1 =
      Some (Inr None, ?s1\<lparr>q_waits := q_waits ?s1 + Suc n1, q_inbuf := [],
                   q_log := q_log ?s1 @ reads (q_arrivals ?s1) 5000 (q_waits ?s1) (Suc n1)\<rparr>)"
    by (rule read_until_hit(2)) (use assms in \<open>simp_all add: port_write_def\<close>)
  let ?s2 = "?s1\<lparr>q_waits := q_waits ?s1 + Suc n1, q_inbuf := [],
                   q_log := q_log ?s1 @ reads (q_arrivals ?s1) 5000 (q_waits ?s1) (Suc n1)\<rparr>"
  let ?s6 = "port_write [CHR 0x04] (port_write (''machine.reset()'' @ [CHR 0x0D, CHR 0x0A])
               (port_write (''import machine'' @ [CHR 0x0D, CHR 0x0A]) (port_write [CHR 0x01] ?s2)))"
  have r2: "read_until fuel ''Execute last selected script.'' 5000 ?s6 =
      Some (Inr None, ?s6\<lparr>q_waits := q_waits ?s6 + Suc n2, q_inbuf := [],
                   q_log := q_log ?s6 @ reads (q_arrivals ?s6) 5000 (q_waits ?s6) (Suc n2)\<rparr>)"
    by (rule read_until_hit(2)) (use assms in \<open>simp_all add: port_write_def\<close>)
  show ?thesis
    unfolding reboot_def Let_def r1 
    apply (simp only: option.case prod.case sum.case r2)
    apply (simp add: port_write_def)
    done
qed


lemma reboot_no_sentinel:
  assumes "q_inbuf s = []"
    and "hits_at (q_arrivals s) 5000 (q_waits s) n1 ''>>> ''"
    and "times_out_at (q_arrivals s) 5000 (q_waits s + Suc n1) n2
           ''Execute last selected script.''"
    and "n1 < fuel" and "n2 < fuel"
  shows "reboot fuel s =
           Some (Inl (TimeoutError ''waitForReadyRead method timeout''),
                 s\<lparr>q_waits := q_waits s + Suc n1 + Suc n2, q_inbuf := [],
                   q_log := q_log s @ [Write [CHR 0x03]] @
                     reads (q_arrivals s) 5000 (q_waits s) (Suc n1) @
                     [Write [CHR 0x01], Write (''import machine'' @ [CHR 0x0D, CHR 0x0A]),
                      Write (''machine.reset()'' @ [CHR 0x0D, CHR 0x0A]), Write [CHR 0x04]] @
                     reads (q_arrivals s) 5000 (q_waits s + Suc n1) n2 @
                     [WaitTimedOut 5000]\<rparr>)"
proof -
  let ?s1 = "port_write [CHR 0x03] s"
  have r1: "read_until fuel ''>>> '' 5000 ?s1 =
      Some (Inr None, ?s1\<lparr>q_waits := q_waits ?s1 + Suc n1, q_inbuf := [],
                   q_log := q_log ?s1 @ reads (q_arrivals ?s1) 5000 (q_waits ?s1) (Suc n1)\<rparr>)"
    by (rule read_until_hit(2)) (use assms in \<open>simp_all add: port_write_def\<close>)
  let ?s2 = "?s1\<lparr>q_waits := q_waits ?s1 + Suc n1, q_inbuf := [],
                   q_log := q_log ?s1 @ reads (q_arrivals ?s1) 5000 (q_waits ?s1) (Suc n1)\<rparr>"
  let ?s6 = "port_write [CHR 0x04] (port_write (''machine.reset()'' @ [CHR 0x0D, CHR 0x0A])
               (port_write (''import machine'' @ [CHR 0x0D, CHR 0x0A]) (port_write [CHR 0x01] ?s2)))"
  have r2: "read_until fuel ''Execute last selected script.'' 5000 ?s6 =
      Some (Inl (TimeoutError ''waitForReadyRead method timeout''),
            ?s6\<lparr>q_waits := q_waits ?s6 + Suc n2, q_inbuf := [],
                   q_log := q_log ?s6 @ reads (q_arrivals ?s6) 5000 (q_waits ?s6) n2 @
                     [WaitTimedOut 5000]\<rparr>)"
    by (rule read_until_timeout) (use assms in \<open>simp_all add: port_write_def\<close>)
  show ?thesis
    unfolding reboot_def Let_def r1 
    apply (simp only: option.case prod.case sum.case r2)
    apply (simp add: port_write_def)
    done
qed

lemma reboot_and_prompt_ok:
  assumes "q_inbuf s = []"
    and "hits_at (q_arrivals s) 5000 (q_waits s) n1 ''>>> ''"
    and "hits_at (q_arrivals s) 5000 (q_waits s + Suc n1) n2 ''Execute last selected script.''"
    and "hits_at (q_arrivals s) 5000 (q_waits s + Suc n1 + Suc n2) n3 ''>>> ''"
    and "n1 < fuel" and "n2 < fuel" and "n3 < fuel"
  shows "reboot_and_prompt fuel s =
           Some (Inr (),
                 s\<lparr>q_waits := q_waits s + Suc n1 + Suc n2 + Suc n3, q_inbuf := [],
                   q_log := q_log s @ [Write [CHR 0x03]] @
                     reads (q_arrivals s) 5000 (q_waits s) (Suc n1) @
                     [Write [CHR 0x01], Write (''import machine'' @ [CHR 0x0D, CHR 0x0A]),
                      Write (''machine.reset()'' @ [CHR 0x0D, CHR 0x0A]), Write [CHR 0x04]] @
                     reads (q_arrivals s) 5000 (q_waits s + Suc n1) (Suc n2) @
                     [Write [CHR 0x03]] @
                     reads (q_arrivals s) 5000 (q_waits s + Suc n1 + Suc n2) (Suc n3)\<rparr>)"
proof -
  note rb = reboot_ok [OF assms(1,2,3,5,6)]
  let ?s1 = "s\<lparr>q_waits := q_waits s + Suc n1 + Suc n2, q_inbuf := [],
                   q_log := q_log s @ [Write [CHR 0x03]] @
                     reads (q_arrivals s) 5000 (q_waits s) (Suc n1) @
                     [Write [CHR 0x01], Write (''import machine'' @ [CHR 0x0D, CHR 0x0A]),
                      Write (''machine.reset()'' @ [CHR 0x0D, CHR 0x0A]), Write [CHR 0x04]] @
                     reads (q_arrivals s) 5000 (q_waits s + Suc n1) (Suc n2)\<rparr>"
  let ?s2 = "port_write [CHR 0x03] ?s1"
  have r3: "read_until fuel ''>>> '' 5000 ?s2 =
      Some (Inr None, ?s2\<lparr>q_waits := q_waits ?s2 + Suc n3, q_inbuf := [],
                   q_log := q_log ?s2 @ reads (q_arrivals ?s2) 5000 (q_waits ?s2) (Suc n3)\<rparr>)"
    by (rule read_until_hit(2)) (use assms in \<open>simp_all add: port_write_def\<close>)
  show ?thesis
    unfolding reboot_and_prompt_def Let_def rb
    apply (simp only: option.case prod.case sum.case r3)
    apply (simp add: port_write_def)
    done
qed

lemma reboot_and_prompt_no_sentinel:
  assumes "reboot fuel s = Some (Inl e, s')"
  shows "reboot_and_prompt fuel s = Some (Inl e, s')"
  using assms by (simp add: reboot_and_prompt_def)

text \<open>
  Claim C1, as amended. For every token and timeout, \<open>read_until\<close>, called on a port
  with no unread data left in it, accumulates the bytes read from the session in a
  buffer. As soon as the buffer contains the token as
  a contiguous substring, that is after the first read that completes it, the loop
  stops, with the buffer holding everything received so far; the function then returns
  Python's \<open>None\<close>, not the buffer. When a wait reports that nothing arrived within the
  timeout before the token is complete, it fails with \<open>TimeoutError\<close>, however much
  data without the token arrived before. Enough fuel (more than the number of reads
  made) gives the result, so the loop has ended by then.
\<close>

theorem read_until_behaviour:
  assumes "q_inbuf s = []" and "n < fuel"
  shows "(hits_at (q_arrivals s) timeout (q_waits s) n token \<longrightarrow>
            read_until_loop fuel token timeout [] s =
              Some (Inr (received (q_arrivals s) timeout (q_waits s) (Suc n)),
                    s\<lparr>q_waits := q_waits s + Suc n, q_inbuf := [],
                      q_log := q_log s @ reads (q_arrivals s) timeout (q_waits s) (Suc n)\<rparr>) \<and>
            sublist token (received (q_arrivals s) timeout (q_waits s) (Suc n)) \<and>
            read_until fuel token timeout s =
              Some (Inr None,
                    s\<lparr>q_waits := q_waits s + Suc n, q_inbuf := [],
                      q_log := q_log s @ reads (q_arrivals s) timeout (q_waits s) (Suc n)\<rparr>)) \<and>
         (times_out_at (q_arrivals s) timeout (q_waits s) n token \<longrightarrow>
            read_until fuel token timeout s =
              Some (Inl (TimeoutError ''waitForReadyRead method timeout''),
                    s\<lparr>q_waits := q_waits s + Suc n, q_inbuf := [],
                      q_log := q_log s @ reads (q_arrivals s) timeout (q_waits s) n @
                        [WaitTimedOut timeout]\<rparr>))"
proof (intro conjI impI)
  assume h: "hits_at (q_arrivals s) timeout (q_waits s) n token"
  from read_until_hit(1) [OF h assms(2,1)]
  show "read_until_loop fuel token timeout [] s =
          Some (Inr (received (q_arrivals s) timeout (q_waits s) (Suc n)),
                s\<lparr>q_waits := q_waits s + Suc n, q_inbuf := [],
                  q_log := q_log s @ reads (q_arrivals s) timeout (q_waits s) (Suc n)\<rparr>)" .
  from h show "sublist token (received (q_arrivals s) timeout (q_waits s) (Suc n))"
    by (simp add: hits_at_def)
  from read_until_hit(2) [OF h assms(2,1)]
  show "read_until fuel token timeout s =
          Some (Inr None,
                s\<lparr>q_waits := q_waits s + Suc n, q_inbuf := [],
                  q_log := q_log s @ reads (q_arrivals s) timeout (q_waits s) (Suc n)\<rparr>)" .
next
  assume t: "times_out_at (q_arrivals s) timeout (q_waits s) n token"
  from read_until_timeout [OF t assms(2,1)]
  show "read_until fuel token timeout s =
          Some (Inl (TimeoutError ''waitForReadyRead method timeout''),
                s\<lparr>q_waits := q_waits s + Suc n, q_inbuf := [],
                  q_log := q_log s @ reads (q_arrivals s) timeout (q_waits s) n @
                    [WaitTimedOut timeout]\<rparr>)" .
qed

text \<open>
  A witness for C1: on \<open>prompt_device\<close> the prompt is complete with the second read;
  a token that the device never sends meets the timeout at the third wait, after two
  reads of other data.
\<close>

theorem read_until_behaviour_witness:
  "q_inbuf prompt_device = [] \<and>
   hits_at (q_arrivals prompt_device) 5000 (q_waits prompt_device) 1 ''>>> '' \<and>
   read_until 2 ''>>> '' 5000 prompt_device =
     Some (Inr None,
           prompt_device\<lparr>q_waits := 2, q_inbuf := [],
             q_log := [ReadAll ''MicroPython'', ReadAll '' >>> '']\<rparr>) \<and>
   times_out_at (q_arrivals prompt_device) 5000 (q_waits prompt_device) 2 ''ready'' \<and>
   read_until 3 ''ready'' 5000 prompt_device =
     Some (Inl (TimeoutError ''waitForReadyRead method timeout''),
           prompt_device\<lparr>q_waits := 3, q_inbuf := [],
             q_log := [ReadAll ''MicroPython'', ReadAll '' >>> '', WaitTimedOut 5000]\<rparr>)"
  using read_until_behaviour [of prompt_device 1 2 5000 "''>>> ''"]
    read_until_behaviour [of prompt_device 2 3 5000 "''ready''"]
  by (simp add: prompt_device_def hits_at_def times_out_at_def quiet_until_def received_def
      reads_def sublist_code less_Suc_eq numeral_2_eq_2 numeral_3_eq_3)

text \<open>
  Each wait is given the whole timeout again: on a port where every wait reports data
  and the token never becomes complete, the loop does not end, whatever the fuel.
\<close>

lemma read_until_loop_no_deadline:
  assumes "\<forall>i. q_arrivals s (q_waits s + i) t \<noteq> None \<and>
             \<not> sublist token (buff @ received (q_arrivals s) t (q_waits s) (Suc i))"
    and "q_inbuf s = []"
  shows "read_until_loop fuel token t buff s = None"
  using assms
proof (induction fuel arbitrary: buff s)
  case 0
  then show ?case by simp
next
  case (Suc fuel)
  from Suc.prems(1) obtain d where d: "q_arrivals s (q_waits s) t = Some d"
    and nd: "\<not> sublist token (buff @ d)"
    by (auto simp: received_def dest: spec [of _ 0])
  let ?s2 = "s\<lparr>q_waits := Suc (q_waits s), q_inbuf := [], q_log := q_log s @ [ReadAll d]\<rparr>"
  have step: "read_until_loop (Suc fuel) token t buff s = read_until_loop fuel token t (buff @ d) ?s2"
    using d nd Suc.prems(2) by (simp add: waitForReadyRead_def readAll_def)
  have p1: "\<forall>i. q_arrivals ?s2 (q_waits ?s2 + i) t \<noteq> None \<and>
             \<not> sublist token ((buff @ d) @ received (q_arrivals ?s2) t (q_waits ?s2) (Suc i))"
  proof
    fix i
    from Suc.prems(1) have "q_arrivals s (q_waits s + Suc i) t \<noteq> None \<and>
             \<not> sublist token (buff @ received (q_arrivals s) t (q_waits s) (Suc (Suc i)))"
      by blast
    then show "q_arrivals ?s2 (q_waits ?s2 + i) t \<noteq> None \<and>
             \<not> sublist token ((buff @ d) @ received (q_arrivals ?s2) t (q_waits ?s2) (Suc i))"
      using d by (simp add: received_Suc_shift [of _ _ "q_waits s"])
  qed
  have p2: "q_inbuf ?s2 = []" by simp
  from Suc.IH [OF p1 p2] step show ?case by simp
qed

lemma boot_loop_received:
  "CHR ''E'' \<notin> set (received (q_arrivals boot_loop_device) t k n)"
proof -
  have "CHR ''E'' \<notin> set (case q_arrivals boot_loop_device i t of Some d \<Rightarrow> d | None \<Rightarrow> [])"
    for i
    by (simp add: boot_loop_device_def)
  then show ?thesis
    unfolding received_def by (simp del: upt_Suc)
qed

lemma boot_loop_never_ready:
  "\<not> sublist ''Execute last selected script.'' (received (q_arrivals boot_loop_device) t k n)"
proof
  assume "sublist ''Execute last selected script.'' (received (q_arrivals boot_loop_device) t k n)"
  then have "set ''Execute last selected script.''
               \<subseteq> set (received (q_arrivals boot_loop_device) t k n)"
    by (rule set_mono_sublist)
  then have "CHR ''E'' \<in> set (received (q_arrivals boot_loop_device) t k n)" by simp
  with boot_loop_received show False by blast
qed

lemma boot_loop_read_until:
  assumes "q_arrivals s = q_arrivals boot_loop_device" and "q_inbuf s = []"
  shows "read_until fuel ''Execute last selected script.'' t s = None"
proof -
  have "\<forall>i. q_arrivals s (q_waits s + i) t \<noteq> None \<and>
          \<not> sublist ''Execute last selected script.''
              ([] @ received (q_arrivals s) t (q_waits s) (Suc i))"
    using boot_loop_never_ready by (simp add: assms(1)) (simp add: boot_loop_device_def)
  from read_until_loop_no_deadline [OF this assms(2)] show ?thesis
    by (simp add: read_until_def)
qed

lemma boot_loop_reboot: "reboot fuel boot_loop_device = None"
proof (cases fuel)
  case 0
  then show ?thesis by (simp add: reboot_def read_until_def)
next
  case (Suc f)
  let ?s1 = "port_write [CHR 0x03] boot_loop_device"
  have r1: "read_until fuel ''>>> '' 5000 ?s1 =
      Some (Inr None, ?s1\<lparr>q_waits := q_waits ?s1 + Suc 0, q_inbuf := [],
                   q_log := q_log ?s1 @ reads (q_arrivals ?s1) 5000 (q_waits ?s1) (Suc 0)\<rparr>)"
    by (rule read_until_hit(2))
      (simp_all add: Suc port_write_def boot_loop_device_def hits_at_def quiet_until_def
        received_def sublist_code)
  show ?thesis
    unfolding reboot_def Let_def r1
    by (simp only: option.case prod.case sum.case)
      (simp add: boot_loop_read_until port_write_def)
qed

text \<open>
  The counterexamples to C1 as stated. On \<open>prompt_device\<close> the loop ends with the
  buffer \<open>MicroPython >>> \<close>, which contains the token, and \<open>read_until\<close> returns
  \<open>None\<close> instead of that buffer. On \<open>boot_loop_device\<close> the token
  \<open>Execute last selected script.\<close> is never delivered, and \<open>read_until\<close> does not
  fail with \<open>TimeoutError\<close>: it does not return at all, whatever the fuel.
\<close>

theorem read_until_counterexample:
  "read_until_loop 2 ''>>> '' 5000 [] prompt_device =
     Some (Inr ''MicroPython >>> '',
           prompt_device\<lparr>q_waits := 2, q_inbuf := [],
             q_log := [ReadAll ''MicroPython'', ReadAll '' >>> '']\<rparr>) \<and>
   read_until 2 ''>>> '' 5000 prompt_device =
     Some (Inr None,
           prompt_device\<lparr>q_waits := 2, q_inbuf := [],
             q_log := [ReadAll ''MicroPython'', ReadAll '' >>> '']\<rparr>) \<and>
   read_until 2 ''>>> '' 5000 prompt_device \<noteq>
     Some (Inr (Some ''MicroPython >>> ''),
           prompt_device\<lparr>q_waits := 2, q_inbuf := [],
             q_log := [ReadAll ''MicroPython'', ReadAll '' >>> '']\<rparr>) \<and>
   (\<forall>n. \<not> sublist ''Execute last selected script.''
           (received (q_arrivals boot_loop_device) 5000 0 n)) \<and>
   (\<forall>fuel. read_until fuel ''Execute last selected script.'' 5000 boot_loop_device = None)"
  using read_until_hit [of prompt_device 5000 1 "''>>> ''" 2]
    boot_loop_never_ready [of 5000 0]
    boot_loop_read_until [of boot_loop_device _ 5000]
  by (simp add: prompt_device_def hits_at_def quiet_until_def received_def reads_def
      sublist_code) (simp add: boot_loop_device_def)

section \<open>Properties of the reboot handshake\<close>

text \<open>
  Claim C5, as amended. On a port with no unread data left in it, whose device shows
  the prompt (after \<open>n1\<close> reads without it) and then the ready line (after \<open>n2\<close>
  more), \<open>reboot\<close> performs exactly: write 0x03,
  the reads up to the prompt, write 0x01, write \<open>import machine\<close> and
  \<open>machine.reset()\<close> each with CR LF, write 0x04, the reads up to the ready line;
  \<open>reboot_and_prompt\<close> then writes 0x03 once more and reads up to the prompt. When
  instead the device never sends the ready line and a wait reports that nothing
  arrived, \<open>reboot\<close> and \<open>reboot_and_prompt\<close> fail with \<open>TimeoutError\<close> in the same
  state, whose log ends with that wait: nothing is written or read after it.
\<close>

theorem reboot_handshake:
  assumes "q_inbuf s = []"
    and "hits_at (q_arrivals s) 5000 (q_waits s) n1 ''>>> ''"
    and "n1 < fuel" and "n2 < fuel" and "n3 < fuel"
  shows "(hits_at (q_arrivals s) 5000 (q_waits s + Suc n1) n2 ''Execute last selected script.'' \<longrightarrow>
            reboot fuel s =
              Some (Inr (),
                    s\<lparr>q_waits := q_waits s + Suc n1 + Suc n2, q_inbuf := [],
                      q_log := q_log s @ [Write [CHR 0x03]] @
                        reads (q_arrivals s) 5000 (q_waits s) (Suc n1) @
                        [Write [CHR 0x01], Write (''import machine'' @ [CHR 0x0D, CHR 0x0A]),
                         Write (''machine.reset()'' @ [CHR 0x0D, CHR 0x0A]), Write [CHR 0x04]] @
                        reads (q_arrivals s) 5000 (q_waits s + Suc n1) (Suc n2)\<rparr>) \<and>
            (hits_at (q_arrivals s) 5000 (q_waits s + Suc n1 + Suc n2) n3 ''>>> '' \<longrightarrow>
               reboot_and_prompt fuel s =
                 Some (Inr (),
                       s\<lparr>q_waits := q_waits s + Suc n1 + Suc n2 + Suc n3, q_inbuf := [],
                         q_log := q_log s @ [Write [CHR 0x03]] @
                           reads (q_arrivals s) 5000 (q_waits s) (Suc n1) @
                           [Write [CHR 0x01], Write (''import machine'' @ [CHR 0x0D, CHR 0x0A]),
                            Write (''machine.reset()'' @ [CHR 0x0D, CHR 0x0A]),
                            Write [CHR 0x04]] @
                           reads (q_arrivals s) 5000 (q_waits s + Suc n1) (Suc n2) @
                           [Write [CHR 0x03]] @
                           reads (q_arrivals s) 5000 (q_waits s + Suc n1 + Suc n2) (Suc n3)\<rparr>))) \<and>
         (times_out_at (q_arrivals s) 5000 (q_waits s + Suc n1) n2
              ''Execute last selected script.'' \<longrightarrow>
            reboot fuel s =
              Some (Inl (TimeoutError ''waitForReadyRead method timeout''),
                    s\<lparr>q_waits := q_waits s + Suc n1 + Suc n2, q_inbuf := [],
                      q_log := q_log s @ [Write [CHR 0x03]] @
                        reads (q_arrivals s) 5000 (q_waits s) (Suc n1) @
                        [Write [CHR 0x01], Write (''import machine'' @ [CHR 0x0D, CHR 0x0A]),
                         Write (''machine.reset()'' @ [CHR 0x0D, CHR 0x0A]), Write [CHR 0x04]] @
                        reads (q_arrivals s) 5000 (q_waits s + Suc n1) n2 @
                        [WaitTimedOut 5000]\<rparr>) \<and>
            reboot_and_prompt fuel s =
              Some (Inl (TimeoutError ''waitForReadyRead method timeout''),
                    s\<lparr>q_waits := q_waits s + Suc n1 + Suc n2, q_inbuf := [],
                      q_log := q_log s @ [Write [CHR 0x03]] @
                        reads (q_arrivals s) 5000 (q_waits s) (Suc n1) @
                        [Write [CHR 0x01], Write (''import machine'' @ [CHR 0x0D, CHR 0x0A]),
                         Write (''machine.reset()'' @ [CHR 0x0D, CHR 0x0A]), Write [CHR 0x04]] @
                        reads (q_arrivals s) 5000 (q_waits s + Suc n1) n2 @
                        [WaitTimedOut 5000]\<rparr>))"
proof (intro conjI impI)
  assume h2: "hits_at (q_arrivals s) 5000 (q_waits s + Suc n1) n2 ''Execute last selected script.''"
  from reboot_ok [OF assms(1,2) h2 assms(3,4)]
  show "reboot fuel s =
          Some (Inr (),
                s\<lparr>q_waits := q_waits s + Suc n1 + Suc n2, q_inbuf := [],
                  q_log := q_log s @ [Write [CHR 0x03]] @
                    reads (q_arrivals s) 5000 (q_waits s) (Suc n1) @
                    [Write [CHR 0x01], Write (''import machine'' @ [CHR 0x0D, CHR 0x0A]),
                     Write (''machine.reset()'' @ [CHR 0x0D, CHR 0x0A]), Write [CHR 0x04]] @
                    reads (q_arrivals s) 5000 (q_waits s + Suc n1) (Suc n2)\<rparr>)" .
  assume h3: "hits_at (q_arrivals s) 5000 (q_waits s + Suc n1 + Suc n2) n3 ''>>> ''"
  from reboot_and_prompt_ok [OF assms(1,2) h2 h3 assms(3,4,5)]
  show "reboot_and_prompt fuel s =
          Some (Inr (),
                s\<lparr>q_waits := q_waits s + Suc n1 + Suc n2 + Suc n3, q_inbuf := [],
                  q_log := q_log s @ [Write [CHR 0x03]] @
                    reads (q_arrivals s) 5000 (q_waits s) (Suc n1) @
                    [Write [CHR 0x01], Write (''import machine'' @ [CHR 0x0D, CHR 0x0A]),
                     Write (''machine.reset()'' @ [CHR 0x0D, CHR 0x0A]),
                     Write [CHR 0x04]] @
                    reads (q_arrivals s) 5000 (q_waits s + Suc n1) (Suc n2) @
                    [Write [CHR 0x03]] @
                    reads (q_arrivals s) 5000 (q_waits s + Suc n1 + Suc n2) (Suc n3)\<rparr>)" .
next
  assume t2: "times_out_at (q_arrivals s) 5000 (q_waits s + Suc n1) n2
                ''Execute last selected script.''"
  note rb = reboot_no_sentinel [OF assms(1,2) t2 assms(3,4)]
  from rb show "reboot fuel s =
          Some (Inl (TimeoutError ''waitForReadyRead method timeout''),
                s\<lparr>q_waits := q_waits s + Suc n1 + Suc n2, q_inbuf := [],
                  q_log := q_log s @ [Write [CHR 0x03]] @
                    reads (q_arrivals s) 5000 (q_waits s) (Suc n1) @
                    [Write [CHR 0x01], Write (''import machine'' @ [CHR 0x0D, CHR 0x0A]),
                     Write (''machine.reset()'' @ [CHR 0x0D, CHR 0x0A]), Write [CHR 0x04]] @
                    reads (q_arrivals s) 5000 (q_waits s + Suc n1) n2 @
                    [WaitTimedOut 5000]\<rparr>)" .
  from reboot_and_prompt_no_sentinel [OF rb]
  show "reboot_and_prompt fuel s =
          Some (Inl (TimeoutError ''waitForReadyRead method timeout''),
                s\<lparr>q_waits := q_waits s + Suc n1 + Suc n2, q_inbuf := [],
                  q_log := q_log s @ [Write [CHR 0x03]] @
                    reads (q_arrivals s) 5000 (q_waits s) (Suc n1) @
                    [Write [CHR 0x01], Write (''import machine'' @ [CHR 0x0D, CHR 0x0A]),
                     Write (''machine.reset()'' @ [CHR 0x0D, CHR 0x0A]), Write [CHR 0x04]] @
                    reads (q_arrivals s) 5000 (q_waits s + Suc n1) n2 @
                    [WaitTimedOut 5000]\<rparr>)" .
qed

text \<open>
  A witness for C5: the whole handshake on \<open>rebooting_device\<close>, and the timeout on
  \<open>silent_after_reset\<close>, where the last event is the wait that timed out.
\<close>

theorem reboot_handshake_witness:
  "reboot_and_prompt 2 rebooting_device =
     Some (Inr (),
           rebooting_device\<lparr>q_waits := 4, q_inbuf := [],
             q_log := [Write [CHR 0x03], ReadAll ''>>> '',
                       Write [CHR 0x01], Write (''import machine'' @ [CHR 0x0D, CHR 0x0A]),
                       Write (''machine.reset()'' @ [CHR 0x0D, CHR 0x0A]), Write [CHR 0x04],
                       ReadAll ''rst:0xc (SW_CPU_RESET)'',
                       ReadAll ''Execute last selected script.'',
                       Write [CHR 0x03], ReadAll ''>>> '']\<rparr>) \<and>
   reboot_and_prompt 2 silent_after_reset =
     Some (Inl (TimeoutError ''waitForReadyRead method timeout''),
           silent_after_reset\<lparr>q_waits := 4, q_inbuf := [],
             q_log := [Write [CHR 0x03], ReadAll ''MicroPython'', ReadAll '' >>> '',
                       Write [CHR 0x01], Write (''import machine'' @ [CHR 0x0D, CHR 0x0A]),
                       Write (''machine.reset()'' @ [CHR 0x0D, CHR 0x0A]), Write [CHR 0x04],
                       ReadAll ''rst:0xc (SW_CPU_RESET)'', WaitTimedOut 5000]\<rparr>)"
  using reboot_handshake [of rebooting_device 0 2 1 0]
    reboot_handshake [of silent_after_reset 1 2 1 0]
  by (simp add: rebooting_device_def silent_after_reset_def hits_at_def times_out_at_def
      quiet_until_def received_def reads_def sublist_code less_Suc_eq numeral_2_eq_2)

text \<open>
  The counterexample to C5 as stated: \<open>boot_loop_device\<close> never sends the ready line,
  and neither \<open>reboot\<close> nor \<open>reboot_and_prompt\<close> fails with \<open>TimeoutError\<close>; they do
  not return, whatever the fuel.
\<close>

theorem reboot_boot_loop_counterexample:
  "(\<forall>n. \<not> sublist ''Execute last selected script.''
           (received (q_arrivals boot_loop_device) 5000 0 n)) \<and>
   (\<forall>fuel. reboot fuel boot_loop_device = None) \<and>
   (\<forall>fuel. reboot_and_prompt fuel boot_loop_device = None)"
  using boot_loop_never_ready boot_loop_reboot by (simp add: reboot_and_prompt_def)

section \<open>Properties of the serial session\<close>

lemma open_serial_link_dtr_ok:
  "q_open_ok p \<Longrightarrow> q_dtr_ok p \<Longrightarrow> name \<noteq> [] \<Longrightarrow>
   open_serial_link p (Some name) =
     (Inr (), p\<lparr>q_name := name, q_is_open := True, q_dtr := True, q_baud := Some 115200,
               q_log := q_log p @ [SetPortName name, Open True, SetDataTerminalReady True,
                                   SetBaudRate 115200]\<rparr>)"
  by (simp add: open_serial_link_def qstring_def setPortName_def open_ReadWrite_def Let_def
      setDataTerminalReady_def isDataTerminalReady_def setBaudRate_def)

lemma open_serial_link_open_fails:
  "\<not> q_open_ok p \<Longrightarrow>
   open_serial_link p (Some name) =
     (Inl (IOError (''Cannot connect to device on port '' @ name)),
      p\<lparr>q_name := name, q_is_open := False,
        q_log := q_log p @ [SetPortName name, Open False]\<rparr>)"
  by (simp add: open_serial_link_def qstring_def format_port_def setPortName_def
      open_ReadWrite_def Let_def)

text \<open>
  Without a port, as when \<open>find_device\<close> found no board: the name is set to the null
  string, \<open>open\<close> fails, and \<open>IOError\<close> is raised with \<open>None\<close> in its message.
\<close>

lemma open_serial_link_None:
  "open_serial_link p None =
     (Inl (IOError ''Cannot connect to device on port None''),
      p\<lparr>q_name := [], q_is_open := False, q_log := q_log p @ [SetPortName [], Open False]\<rparr>)"
  by (simp add: open_serial_link_def qstring_def format_port_def setPortName_def
      open_ReadWrite_def Let_def)

text \<open>
  Claim C4, at the input where the code departs from it: the port opens and the
  toolkit does not report DTR as set. \<open>open_serial_link\<close> closes the port and then
  raises \<open>NameError\<close> at \<open>serial.Serial(port)\<close>: the port is not opened through
  pyserial, not reopened through the toolkit, and the baud rate is not set.
\<close>

theorem open_serial_link_dtr_fallback:
  "open_serial_link dtr_quirk_port (Some ''COM3'') =
     (Inl (NameError ''serial''),
      dtr_quirk_port\<lparr>q_name := ''COM3'', q_is_open := False, q_dtr := False, q_baud := None,
        q_log := [SetPortName ''COM3'', Open True, SetDataTerminalReady True, Close]\<rparr>)"
  by (simp add: open_serial_link_def qstring_def setPortName_def open_ReadWrite_def Let_def
      setDataTerminalReady_def isDataTerminalReady_def close_port_def dtr_quirk_port_def)

section \<open>Properties of the mode orchestrator\<close>

lemma set_buttons_keeps:
  "repl (set_buttons kwargs m) = repl m \<and> plotter (set_buttons kwargs m) = plotter m \<and>
   fs (set_buttons kwargs m) = fs m \<and> timer_active (set_buttons kwargs m) = timer_active m \<and>
   shown_messages (set_buttons kwargs m) = shown_messages m"
  by (induction kwargs m rule: set_buttons.induct) simp_all

text \<open>
  The rejections that the code does make: the file system toggle while the REPL is
  active, and the REPL and plotter toggles while the file system is active, change
  nothing but the list of messages, to which they add exactly one.
\<close>

lemma toggle_files_rejected_while_repl:
  "truthy (repl m) \<Longrightarrow>
   toggle_files env m =
     Inr (m\<lparr>shown_messages := shown_messages m @ [(fs_busy_message, fs_busy_information)]\<rparr>)"
  by (simp add: toggle_files_def show_message_def)

lemma toggle_repl_rejected_while_fs:
  "fs m \<noteq> None \<Longrightarrow>
   toggle_repl env m =
     Inr (m\<lparr>shown_messages := shown_messages m @ [(repl_fs_message, repl_fs_information)]\<rparr>)"
  by (simp add: toggle_repl_def show_message_def)

lemma toggle_plotter_rejected_while_fs:
  "fs m \<noteq> None \<Longrightarrow>
   toggle_plotter env m =
     Inr (m\<lparr>shown_messages :=
              shown_messages m @ [(plotter_fs_message, plotter_fs_information)]\<rparr>)"
  by (simp add: toggle_plotter_def show_message_def)

text \<open>
  With the REPL inactive, \<open>toggle_files\<close> never shows the rejection message, whether
  or not the plotter is active.
\<close>

lemma toggle_files_no_rejection_without_repl:
  assumes "\<not> truthy (repl m)" and "toggle_files env m = Inr m'"
    and "(fs_busy_message, fs_busy_information) \<notin> set (shown_messages m)"
  shows "(fs_busy_message, fs_busy_information) \<notin> set (shown_messages m')"
proof -
  have ne: "message \<noteq> fs_busy_message"
    by (simp add: message_def fs_busy_message_def)
  show ?thesis
  proof (cases "fs m")
    case None
    with assms ne show ?thesis
      by (auto simp: toggle_files_def add_fs_def show_message_def set_buttons_keeps
          simp del: set_buttons.simps split: sum.splits if_splits prod.splits)
  next
    case (Some a)
    with assms show ?thesis
      by (auto simp: toggle_files_def remove_fs_def set_buttons_keeps
          simp del: set_buttons.simps)
  qed
qed

text \<open>
  Claim C2, at the input where the code departs from it. From the idle mode, with a
  board attached, starting the plotter gives \<open>plotting_mode\<close>: plotter active, REPL and
  file system not. Toggling the file system in that state is not rejected: the file
  system navigator is added (\<open>fs\<close> changes from \<open>None\<close> to the pane) and no message is
  shown.
\<close>

theorem toggle_files_while_plotter_active:
  "toggle_plotter board_attached idle_mode = Inr plotting_mode \<and>
   toggle_files board_attached plotting_mode =
     Inr \<lparr>repl = None, plotter = Some True, fs = Some (), timer_active = True,
          button_slots = [(''run'', False), (''flash_sb'', False), (''files_sb'', False),
                          (''repl'', False), (''plotter'', False)],
          shown_messages = []\<rparr>"
  by (simp add: toggle_plotter_def MicroPythonMode_toggle_plotter_def add_plotter_def
      toggle_files_def add_fs_def truthy_def truthy_str_def timer_start_def
      board_attached_def studuinobit_port_def idle_mode_def plotting_mode_def
      studuinobit_valid_boards_def board_match_def port_path_def)

section \<open>Properties of the flash operation\<close>

lemma close_serial_link_Some:
  "fl_serial st = Some s \<Longrightarrow>
   fl_serial (close_serial_link st) = None \<and>
   fl_steps (close_serial_link st) = fl_steps st @ [CloseSerialLink]"
  by (simp add: close_serial_link_def)

text \<open>
  The staging path: for a home directory and a workspace name that are not empty, with
  no \<open>/\<close> at the end or at the start of the name, it is
  \<open><home>/<workspace-name>/studuinobit/usr<slot-number>.py\<close>.
\<close>

lemma usr_file_path_pattern:
  assumes "fe_HOME_DIRECTORY env \<noteq> []" and "last (fe_HOME_DIRECTORY env) \<noteq> CHR ''/''"
    and "fe_WORKSPACE_NAME env \<noteq> []" and "hd (fe_WORKSPACE_NAME env) \<noteq> CHR ''/''"
    and "last (fe_WORKSPACE_NAME env) \<noteq> CHR ''/''"
  shows "usr_file_path env reg_num =
           fe_HOME_DIRECTORY env @ ''/'' @ fe_WORKSPACE_NAME env @ ''/studuinobit/usr'' @
             reg_num @ ''.py''"
  using assms by (simp add: usr_file_path_def path_join_def)

lemma open_serial_link_failed_closed:
  "open_serial_link p port = (Inl e, s) \<Longrightarrow> \<not> q_is_open s"
  by (auto simp: open_serial_link_def Let_def setPortName_def open_ReadWrite_def
      setDataTerminalReady_def isDataTerminalReady_def close_port_def setBaudRate_def
      split: if_splits)

text \<open>
  Claim C6, as amended. The flash operation performs its steps in this order: find the
  device, open the serial session, let the user select a destination slot, persist the
  editor buffer to the staging file
  \<open><home>/<workspace-name>/studuinobit/usr<slot-number>.py\<close>, run the reboot handshake
  (\<open>reboot_and_prompt\<close>), upload the staged file as \<open>usr/<its basename>\<close>, send the
  command recording the selected slot, reboot again. What a run does is fixed by the
  first step that does not succeed, and in every case the steps after it are not
  started:

  \<^item> the device is not found, or the session cannot be opened: the message
    \<open>Could not find an attached device.\<close> is shown, no session is open, and
    \<open>close_serial_link\<close> is not called;
  \<^item> the user cancels the slot dialog: the session is closed and nothing is reported;
  \<^item> the dialog has no slot, there is no current tab, or \<open>save_and_encode\<close> raises: the
    session is closed after \<open>File Save Error.\<close>;
  \<^item> the reboot handshake raises: the session is closed after \<open>Reboot Error\<close>;
  \<^item> the upload raises: the session is closed after \<open>Uploade Error\<close>;
  \<^item> the command recording the slot or the second reboot raises: the session is closed
    after \<open>Restart Error\<close>;
  \<^item> a reboot whose \<open>read_until\<close> loop is still running when the fuel runs out: the
    operation has not returned either, and nothing is reported or closed;
  \<^item> every step succeeds: the session is closed after the status message
    \<open>Transfer success\<close>.

  In each case the theorem gives the state after the run: the steps made, \<open>self.serial\<close>,
  and the port that was closed.
\<close>

theorem toggle_flash_order:
  "(\<forall>e. find_device (fe_os_name env) studuinobit_valid_boards (fe_available_ports env) = Inl e \<longrightarrow>
      toggle_flash fuel env st =
        Some (st\<lparr>fl_steps := fl_steps st @ [FindDevice, ShowMessage message information]\<rparr>)) \<and>
   (\<forall>port sn.
      find_device (fe_os_name env) studuinobit_valid_boards (fe_available_ports env)
        = Inr (port, sn) \<longrightarrow>
      (\<forall>e s. open_serial_link (fe_new_port env) port = (Inl e, s) \<longrightarrow>
         \<not> q_is_open s \<and>
         toggle_flash fuel env st =
           Some (st\<lparr>fl_serial := Some s,
                   fl_steps := fl_steps st @
                     [FindDevice, OpenSerialLink port, ShowMessage message information]\<rparr>)) \<and>
      (\<forall>s0. open_serial_link (fe_new_port env) port = (Inr (), s0) \<longrightarrow>
         (fe_dialog_result env = 0 \<longrightarrow>
            toggle_flash fuel env st =
              Some \<lparr>fl_serial = None, fl_closed = fl_closed st @ [close_port s0],
                    fl_steps = fl_steps st @
                      [FindDevice, OpenSerialLink port, RegisterWindow_exec,
                       CloseSerialLink]\<rparr>) \<and>
         (fe_dialog_result env \<noteq> 0 \<longrightarrow>
            (fe_register_info env = [] \<longrightarrow>
               toggle_flash fuel env st =
                 Some \<lparr>fl_serial = None, fl_closed = fl_closed st @ [close_port s0],
                       fl_steps = fl_steps st @
                         [FindDevice, OpenSerialLink port, RegisterWindow_exec,
                          CriticalBox ''File Save Error.'' ''Failed to save the file.'',
                          CloseSerialLink]\<rparr>) \<and>
            (\<forall>reg_num rest. fe_register_info env = reg_num # rest \<longrightarrow>
               (fe_current_tab env = None \<longrightarrow>
                  toggle_flash fuel env st =
                    Some \<lparr>fl_serial = None, fl_closed = fl_closed st @ [close_port s0],
                          fl_steps = fl_steps st @
                            [FindDevice, OpenSerialLink port, RegisterWindow_exec,
                             CriticalBox ''File Save Error.'' ''Failed to save the file.'',
                             CloseSerialLink]\<rparr>) \<and>
               (\<forall>script newline. fe_current_tab env = Some (script, newline) \<longrightarrow>
                  (\<forall>e. fe_save_and_encode env script (usr_file_path env reg_num) newline
                          = Some e \<longrightarrow>
                     toggle_flash fuel env st =
                       Some \<lparr>fl_serial = None, fl_closed = fl_closed st @ [close_port s0],
                             fl_steps = fl_steps st @
                               take 4 (flash_sequence env port reg_num script newline) @
                               [CriticalBox ''File Save Error.'' ''Failed to save the file.'',
                                CloseSerialLink]\<rparr>) \<and>
                  (fe_save_and_encode env script (usr_file_path env reg_num) newline
                     = None \<longrightarrow>
                     (reboot_and_prompt fuel s0 = None \<longrightarrow>
                        toggle_flash fuel env st = None) \<and>
                     (\<forall>e s1. reboot_and_prompt fuel s0 = Some (Inl e, s1) \<longrightarrow>
                        toggle_flash fuel env st =
                          Some \<lparr>fl_serial = None, fl_closed = fl_closed st @ [close_port s1],
                                fl_steps = fl_steps st @
                                  take 5 (flash_sequence env port reg_num script newline) @
                                  [CriticalBox ''Reboot Error''
                                     ''Please connect the USB cable again.'',
                                   CloseSerialLink]\<rparr>) \<and>
                     (\<forall>s1. reboot_and_prompt fuel s0 = Some (Inr (), s1) \<longrightarrow>
                        (\<forall>e s2.
                           fe_sbfs_put env (usr_file_path env reg_num)
                             (''usr/'' @ basename (usr_file_path env reg_num)) s1
                             = (Some e, s2) \<longrightarrow>
                           toggle_flash fuel env st =
                             Some \<lparr>fl_serial = None,
                                   fl_closed = fl_closed st @ [close_port s2],
                                   fl_steps = fl_steps st @
                                     take 6 (flash_sequence env port reg_num script newline) @
                                     [CriticalBox ''Uploade Error''
                                        ''Please connect the USB cable again.'',
                                      CloseSerialLink]\<rparr>) \<and>
                        (\<forall>s2.
                           fe_sbfs_put env (usr_file_path env reg_num)
                             (''usr/'' @ basename (usr_file_path env reg_num)) s1
                             = (None, s2) \<longrightarrow>
                           (\<forall>e s3.
                              fe_sbfs_execute env (set_start_index reg_num) s2
                                = (Some e, s3) \<longrightarrow>
                              toggle_flash fuel env st =
                                Some \<lparr>fl_serial = None,
                                      fl_closed = fl_closed st @ [close_port s3],
                                      fl_steps = fl_steps st @
                                        take 7 (flash_sequence env port reg_num script newline) @
                                        [CriticalBox ''Restart Error'' restart_information,
                                         CloseSerialLink]\<rparr>) \<and>
                           (\<forall>s3.
                              fe_sbfs_execute env (set_start_index reg_num) s2
                                = (None, s3) \<longrightarrow>
                              (reboot fuel s3 = None \<longrightarrow>
                                 toggle_flash fuel env st = None) \<and>
                              (\<forall>e s4. reboot fuel s3 = Some (Inl e, s4) \<longrightarrow>
                                 toggle_flash fuel env st =
                                   Some \<lparr>fl_serial = None,
                                         fl_closed = fl_closed st @ [close_port s4],
                                         fl_steps = fl_steps st @
                                           flash_sequence env port reg_num script newline @
                                           [CriticalBox ''Restart Error'' restart_information,
                                            CloseSerialLink]\<rparr>) \<and>
                              (\<forall>s4. reboot fuel s3 = Some (Inr (), s4) \<longrightarrow>
                                 toggle_flash fuel env st =
                                   Some \<lparr>fl_serial = None,
                                         fl_closed = fl_closed st @ [close_port s4],
                                         fl_steps = fl_steps st @
                                           flash_sequence env port reg_num script newline @
                                           [StatusMessage ''Transfer success'',
                                            CloseSerialLink]\<rparr>))))))))))"
  by (intro conjI allI impI)
    (auto simp: toggle_flash_def flash_save_def save_def flash_reboot_def flash_upload_def
      flash_restart_def Let_def step_def close_serial_link_def flash_sequence_def
      dest: open_serial_link_failed_closed)

text \<open>A run in which every step succeeds.\<close>

lemma toggle_flash_full_run:
  assumes "find_device (fe_os_name env) studuinobit_valid_boards (fe_available_ports env)
             = Inr (Some port, sn)"
    and "open_serial_link (fe_new_port env) (Some port) = (Inr (), s0)"
    and "fe_dialog_result env \<noteq> 0" and "fe_register_info env = reg_num # rest"
    and "fe_current_tab env = Some (text, newline)"
    and "fe_save_and_encode env text (usr_file_path env reg_num) newline = None"
    and "reboot_and_prompt fuel s0 = Some (Inr (), s1)"
    and "fe_sbfs_put env (usr_file_path env reg_num)
           (''usr/'' @ basename (usr_file_path env reg_num)) s1 = (None, s2)"
    and "fe_sbfs_execute env (set_start_index reg_num) s2 = (None, s3)"
    and "reboot fuel s3 = Some (Inr (), s4)"
  shows "toggle_flash fuel env st =
           Some \<lparr>fl_serial = None, fl_closed = fl_closed st @ [close_port s4],
                 fl_steps = fl_steps st @ flash_sequence env (Some port) reg_num text newline @
                   [StatusMessage ''Transfer success'', CloseSerialLink]\<rparr>"
  using assms
  by (simp add: toggle_flash_def flash_save_def save_def flash_reboot_def flash_upload_def
      flash_restart_def Let_def step_def close_serial_link_def flash_sequence_def)

text \<open>The run on \<open>flash_env_ok\<close>, where every step succeeds, and its steps.\<close>

lemma flash_env_ok_run:
  "\<exists>st'. toggle_flash 2 flash_env_ok flash_start = Some st' \<and>
     fl_steps st' =
       [FindDevice, OpenSerialLink (Some ''/dev/ttyACM0''), RegisterWindow_exec,
        SaveAndEncode ''print(1)'' ''/home/user/mu_code/studuinobit/usr3.py'' ''\<newline>'',
        RebootAndPrompt,
        SbfsPut ''/home/user/mu_code/studuinobit/usr3.py'' ''usr/usr3.py'',
        SbfsExecute [''import machine'',
                     ''machine.nvs_setint('' @ [CHR 0x22] @ ''lastSelected'' @ [CHR 0x22] @
                       '', 3)''],
        Reboot, StatusMessage ''Transfer success'', CloseSerialLink]"
proof -
  define s0 where "s0 = new_port\<lparr>q_name := ''/dev/ttyACM0'', q_is_open := True, q_dtr := True,
      q_baud := Some 115200,
      q_log := [SetPortName ''/dev/ttyACM0'', Open True, SetDataTerminalReady True,
                SetBaudRate 115200]\<rparr>"
  have find: "find_device (fe_os_name flash_env_ok) studuinobit_valid_boards
                (fe_available_ports flash_env_ok) = Inr (Some ''/dev/ttyACM0'', Some ''SB0001'')"
    by (simp add: flash_env_ok_def studuinobit_port_def studuinobit_valid_boards_def
        board_match_def port_path_def)
  have opened: "open_serial_link (fe_new_port flash_env_ok) (Some ''/dev/ttyACM0'') = (Inr (), s0)"
    using open_serial_link_dtr_ok [of new_port "''/dev/ttyACM0''"]
    by (simp add: flash_env_ok_def new_port_def s0_def)
  have s0: "q_inbuf s0 = []" "q_waits s0 = 0" "q_arrivals s0 = q_arrivals new_port"
    by (simp_all add: s0_def new_port_def)
  have h1: "hits_at (q_arrivals s0) 5000 (q_waits s0) 0 ''>>> ''"
    and h2: "hits_at (q_arrivals s0) 5000 (q_waits s0 + Suc 0) 1 ''Execute last selected script.''"
    and h3: "hits_at (q_arrivals s0) 5000 (q_waits s0 + Suc 0 + Suc 1) 0 ''>>> ''"
    by (simp_all add: s0 new_port_def hits_at_def quiet_until_def received_def sublist_code)
  from reboot_and_prompt_ok [OF s0(1) h1 h2 h3, of 2]
  obtain s1 where rb1: "reboot_and_prompt 2 s0 = Some (Inr (), s1)"
    and s1: "q_inbuf s1 = []" "q_waits s1 = 4" "q_arrivals s1 = q_arrivals new_port"
    by (simp add: s0)
  have h4: "hits_at (q_arrivals s1) 5000 (q_waits s1) 0 ''>>> ''"
    and h5: "hits_at (q_arrivals s1) 5000 (q_waits s1 + Suc 0) 0 ''Execute last selected script.''"
    by (simp_all add: s1 new_port_def hits_at_def quiet_until_def received_def sublist_code)
  from reboot_ok [OF s1(1) h4 h5, of 2]
  obtain s4 where rb2: "reboot 2 s1 = Some (Inr (), s4)"
    by simp
  have path: "usr_file_path flash_env_ok ''3'' = ''/home/user/mu_code/studuinobit/usr3.py''"
    by (simp add: usr_file_path_def path_join_def flash_env_ok_def)
  have base: "basename ''/home/user/mu_code/studuinobit/usr3.py'' = ''usr3.py''"
    by (simp add: basename_def)
  have "toggle_flash 2 flash_env_ok flash_start =
          Some \<lparr>fl_serial = None, fl_closed = fl_closed flash_start @ [close_port s4],
                fl_steps = fl_steps flash_start @
                  flash_sequence flash_env_ok (Some ''/dev/ttyACM0'') ''3'' ''print(1)''
                    ''\<newline>'' @
                  [StatusMessage ''Transfer success'', CloseSerialLink]\<rparr>"
    by (rule toggle_flash_full_run [OF find opened _ _ _ _ rb1 _ _ rb2])
      (simp_all add: flash_env_ok_def)
  then show ?thesis
    by (simp add: flash_sequence_def path base set_start_index_def flash_start_def)
qed

lemma flash_env_no_open_run:
  "map_option fl_steps (toggle_flash 2 flash_env_no_open flash_start) =
     Some [FindDevice, OpenSerialLink (Some ''/dev/ttyACM0''),
           ShowMessage message information]"
  by (simp add: toggle_flash_def Let_def step_def flash_env_no_open_def flash_env_ok_def
      flash_start_def studuinobit_port_def studuinobit_valid_boards_def board_match_def
      port_path_def open_serial_link_def setPortName_def open_ReadWrite_def new_port_def)

text \<open>
  On a port that behaves as \<open>boot_loop_device\<close>, the reboot handshake does not return,
  whatever the fuel.
\<close>

lemma boot_loop_reboot_and_prompt:
  assumes "q_arrivals s = q_arrivals boot_loop_device" and "q_inbuf s = []"
    and "q_waits s = 0"
  shows "reboot_and_prompt fuel s = None"
proof -
  have "reboot fuel s = None"
  proof (cases fuel)
    case 0
    then show ?thesis by (simp add: reboot_def read_until_def)
  next
    case (Suc f)
    let ?s1 = "port_write [CHR 0x03] s"
    have r1: "read_until fuel ''>>> '' 5000 ?s1 =
        Some (Inr None, ?s1\<lparr>q_waits := q_waits ?s1 + Suc 0, q_inbuf := [],
                     q_log := q_log ?s1 @ reads (q_arrivals ?s1) 5000 (q_waits ?s1) (Suc 0)\<rparr>)"
      by (rule read_until_hit(2))
        (simp_all add: Suc assms port_write_def boot_loop_device_def hits_at_def
          quiet_until_def received_def sublist_code)
    show ?thesis
      unfolding reboot_def Let_def r1
      by (simp only: option.case prod.case sum.case)
        (simp add: boot_loop_read_until assms port_write_def)
  qed
  then show ?thesis by (simp add: reboot_and_prompt_def)
qed

text \<open>The device of the concrete environments is found, and its port opens.\<close>

lemma find_device_studuinobit_port:
  "find_device ''posix'' studuinobit_valid_boards [studuinobit_port] =
     Inr (Some ''/dev/ttyACM0'', Some ''SB0001'')"
  by (simp add: studuinobit_port_def studuinobit_valid_boards_def board_match_def
      port_path_def)

lemma new_port_opens:
  "open_serial_link (new_port\<lparr>q_arrivals := a\<rparr>) (Some ''/dev/ttyACM0'') =
     (Inr (),
      new_port\<lparr>q_arrivals := a, q_name := ''/dev/ttyACM0'', q_is_open := True, q_dtr := True,
        q_baud := Some 115200,
        q_log := [SetPortName ''/dev/ttyACM0'', Open True, SetDataTerminalReady True,
                  SetBaudRate 115200]\<rparr>)"
  using open_serial_link_dtr_ok [of "new_port\<lparr>q_arrivals := a\<rparr>" "''/dev/ttyACM0''"]
  by (simp add: new_port_def)

text \<open>
  A witness for C6, on seven environments: no board attached; a port that cannot be
  opened; the slot dialog cancelled; a device that falls silent during the reboot
  handshake; an upload that raises; a device in a boot loop, on which the operation
  does not return; and a run in which every step succeeds.
\<close>

theorem toggle_flash_order_witness:
  "toggle_flash 2 flash_env_no_device flash_start =
     Some \<lparr>fl_serial = Some (new_port\<lparr>q_log := [SetPortName [], Open False]\<rparr>),
           fl_closed = [],
           fl_steps = [FindDevice, OpenSerialLink None, ShowMessage message information]\<rparr> \<and>
   toggle_flash 2 flash_env_no_open flash_start =
     Some \<lparr>fl_serial =
             Some (new_port\<lparr>q_open_ok := False, q_name := ''/dev/ttyACM0'',
                     q_log := [SetPortName ''/dev/ttyACM0'', Open False]\<rparr>),
           fl_closed = [],
           fl_steps = [FindDevice, OpenSerialLink (Some ''/dev/ttyACM0''),
                       ShowMessage message information]\<rparr> \<and>
   toggle_flash 2 flash_env_cancel flash_start =
     Some \<lparr>fl_serial = None,
           fl_closed =
             [new_port\<lparr>q_name := ''/dev/ttyACM0'', q_is_open := False, q_dtr := True,
                q_baud := Some 115200,
                q_log := [SetPortName ''/dev/ttyACM0'', Open True, SetDataTerminalReady True,
                          SetBaudRate 115200, Close]\<rparr>],
           fl_steps = [FindDevice, OpenSerialLink (Some ''/dev/ttyACM0''),
                       RegisterWindow_exec, CloseSerialLink]\<rparr> \<and>
   map_option fl_steps (toggle_flash 2 flash_env_silent flash_start) =
     Some [FindDevice, OpenSerialLink (Some ''/dev/ttyACM0''), RegisterWindow_exec,
           SaveAndEncode ''print(1)'' ''/home/user/mu_code/studuinobit/usr3.py'' ''\<newline>'',
           RebootAndPrompt,
           CriticalBox ''Reboot Error'' ''Please connect the USB cable again.'',
           CloseSerialLink] \<and>
   map_option fl_serial (toggle_flash 2 flash_env_silent flash_start) = Some None \<and>
   map_option fl_steps (toggle_flash 2 flash_env_put_fails flash_start) =
     Some [FindDevice, OpenSerialLink (Some ''/dev/ttyACM0''), RegisterWindow_exec,
           SaveAndEncode ''print(1)'' ''/home/user/mu_code/studuinobit/usr3.py'' ''\<newline>'',
           RebootAndPrompt,
           SbfsPut ''/home/user/mu_code/studuinobit/usr3.py'' ''usr/usr3.py'',
           CriticalBox ''Uploade Error'' ''Please connect the USB cable again.'',
           CloseSerialLink] \<and>
   map_option fl_serial (toggle_flash 2 flash_env_put_fails flash_start) = Some None \<and>
   (\<forall>fuel. toggle_flash fuel flash_env_boot_loop flash_start = None) \<and>
   map_option fl_steps (toggle_flash 2 flash_env_ok flash_start) =
     Some [FindDevice, OpenSerialLink (Some ''/dev/ttyACM0''), RegisterWindow_exec,
           SaveAndEncode ''print(1)'' ''/home/user/mu_code/studuinobit/usr3.py'' ''\<newline>'',
           RebootAndPrompt,
           SbfsPut ''/home/user/mu_code/studuinobit/usr3.py'' ''usr/usr3.py'',
           SbfsExecute [''import machine'',
                        ''machine.nvs_setint('' @ [CHR 0x22] @ ''lastSelected'' @ [CHR 0x22] @
                          '', 3)''],
           Reboot, StatusMessage ''Transfer success'', CloseSerialLink] \<and>
   map_option fl_serial (toggle_flash 2 flash_env_ok flash_start) = Some None"
proof -
  note envs = flash_env_no_device_def flash_env_no_open_def flash_env_cancel_def
    flash_env_silent_def flash_env_put_fails_def flash_env_boot_loop_def flash_env_ok_def
  note evals = flash_sequence_def usr_file_path_def path_join_def basename_def
    set_start_index_def flash_start_def
  have none: "open_serial_link new_port None =
      (Inl (IOError ''Cannot connect to device on port None''),
       new_port\<lparr>q_log := [SetPortName [], Open False]\<rparr>)"
    by (simp add: open_serial_link_None new_port_def)
  have no_open: "open_serial_link (new_port\<lparr>q_open_ok := False\<rparr>) (Some ''/dev/ttyACM0'') =
      (Inl (IOError ''Cannot connect to device on port /dev/ttyACM0''),
       new_port\<lparr>q_open_ok := False, q_name := ''/dev/ttyACM0'',
         q_log := [SetPortName ''/dev/ttyACM0'', Open False]\<rparr>)"
    by (simp add: open_serial_link_open_fails new_port_def)
  define opened where "opened a = new_port\<lparr>q_arrivals := a, q_name := ''/dev/ttyACM0'',
      q_is_open := True, q_dtr := True, q_baud := Some 115200,
      q_log := [SetPortName ''/dev/ttyACM0'', Open True, SetDataTerminalReady True,
                SetBaudRate 115200]\<rparr>" for a
  have opens: "open_serial_link (new_port\<lparr>q_arrivals := a\<rparr>) (Some ''/dev/ttyACM0'') =
      (Inr (), opened a)" for a
    by (simp add: new_port_opens opened_def)
  have opens': "open_serial_link new_port (Some ''/dev/ttyACM0'') =
      (Inr (), opened (q_arrivals new_port))"
    using opens [of "q_arrivals new_port"] by simp
  have o: "q_inbuf (opened a) = []" "q_waits (opened a) = 0" "q_arrivals (opened a) = a" for a
    by (simp_all add: opened_def new_port_def)
  have "hits_at (q_arrivals silent_after_reset) 5000 0 1 ''>>> ''"
    and "times_out_at (q_arrivals silent_after_reset) 5000 (Suc (Suc 0)) 1
           ''Execute last selected script.''"
    by (simp_all add: silent_after_reset_def hits_at_def times_out_at_def quiet_until_def
        received_def sublist_code)
  with reboot_no_sentinel [of "opened (q_arrivals silent_after_reset)" 1 1 2]
  obtain e1 t1 where "reboot 2 (opened (q_arrivals silent_after_reset)) = Some (Inl e1, t1)"
    by (simp add: o)
  then have silent: "reboot_and_prompt 2 (opened (q_arrivals silent_after_reset)) =
      Some (Inl e1, t1)"
    by (rule reboot_and_prompt_no_sentinel)
  have loop: "reboot_and_prompt fuel (opened (q_arrivals boot_loop_device)) = None" for fuel
    by (rule boot_loop_reboot_and_prompt) (simp_all add: o)
  have "hits_at (q_arrivals new_port) 5000 0 0 ''>>> ''"
    and "hits_at (q_arrivals new_port) 5000 (Suc 0) 1 ''Execute last selected script.''"
    and "hits_at (q_arrivals new_port) 5000 (Suc (Suc (Suc 0))) 0 ''>>> ''"
    by (simp_all add: new_port_def hits_at_def quiet_until_def received_def sublist_code)
  with reboot_and_prompt_ok [of "opened (q_arrivals new_port)" 0 1 0 2]
  obtain s1 where rb1: "reboot_and_prompt 2 (opened (q_arrivals new_port)) = Some (Inr (), s1)"
    and s1: "q_inbuf s1 = []" "q_waits s1 = 4" "q_arrivals s1 = q_arrivals new_port"
    by (simp add: o)
  have "hits_at (q_arrivals new_port) 5000 4 0 ''>>> ''"
    and "hits_at (q_arrivals new_port) 5000 5 0 ''Execute last selected script.''"
    by (simp_all add: new_port_def hits_at_def quiet_until_def received_def sublist_code)
  with reboot_ok [of s1 0 0 2]
  obtain s4 where rb2: "reboot 2 s1 = Some (Inr (), s4)"
    by (simp add: s1)
  have c1: "toggle_flash 2 flash_env_no_device flash_start =
     Some \<lparr>fl_serial = Some (new_port\<lparr>q_log := [SetPortName [], Open False]\<rparr>),
           fl_closed = [],
           fl_steps = [FindDevice, OpenSerialLink None, ShowMessage message information]\<rparr>"
    using toggle_flash_order [of flash_env_no_device 2 flash_start] none
    by (simp add: envs evals)
  have c2: "toggle_flash 2 flash_env_no_open flash_start =
     Some \<lparr>fl_serial =
             Some (new_port\<lparr>q_open_ok := False, q_name := ''/dev/ttyACM0'',
                     q_log := [SetPortName ''/dev/ttyACM0'', Open False]\<rparr>),
           fl_closed = [],
           fl_steps = [FindDevice, OpenSerialLink (Some ''/dev/ttyACM0''),
                       ShowMessage message information]\<rparr>"
    using toggle_flash_order [of flash_env_no_open 2 flash_start]
      find_device_studuinobit_port no_open
    by (simp add: envs evals)
  have c3: "toggle_flash 2 flash_env_cancel flash_start =
     Some \<lparr>fl_serial = None, fl_closed = [close_port (opened (q_arrivals new_port))],
           fl_steps = [FindDevice, OpenSerialLink (Some ''/dev/ttyACM0''),
                       RegisterWindow_exec, CloseSerialLink]\<rparr>"
    using toggle_flash_order [of flash_env_cancel 2 flash_start]
      find_device_studuinobit_port opens'
    by (simp add: envs evals)
  have c4: "toggle_flash 2 flash_env_silent flash_start =
     Some \<lparr>fl_serial = None, fl_closed = [close_port t1],
           fl_steps =
             [FindDevice, OpenSerialLink (Some ''/dev/ttyACM0''), RegisterWindow_exec,
              SaveAndEncode ''print(1)'' ''/home/user/mu_code/studuinobit/usr3.py'' ''\<newline>'',
              RebootAndPrompt,
              CriticalBox ''Reboot Error'' ''Please connect the USB cable again.'',
              CloseSerialLink]\<rparr>"
    using toggle_flash_order [of flash_env_silent 2 flash_start]
      find_device_studuinobit_port opens [of "q_arrivals silent_after_reset"] silent
    by (simp add: envs evals)
  have c5: "toggle_flash 2 flash_env_put_fails flash_start =
     Some \<lparr>fl_serial = None, fl_closed = [close_port s1],
           fl_steps =
             [FindDevice, OpenSerialLink (Some ''/dev/ttyACM0''), RegisterWindow_exec,
              SaveAndEncode ''print(1)'' ''/home/user/mu_code/studuinobit/usr3.py'' ''\<newline>'',
              RebootAndPrompt,
              SbfsPut ''/home/user/mu_code/studuinobit/usr3.py'' ''usr/usr3.py'',
              CriticalBox ''Uploade Error'' ''Please connect the USB cable again.'',
              CloseSerialLink]\<rparr>"
    using toggle_flash_order [of flash_env_put_fails 2 flash_start]
      find_device_studuinobit_port opens' rb1
    by (simp add: envs evals)
  have c6: "toggle_flash fuel flash_env_boot_loop flash_start = None" for fuel
    using toggle_flash_order [of flash_env_boot_loop fuel flash_start]
      find_device_studuinobit_port opens [of "q_arrivals boot_loop_device"] loop [of fuel]
    by (simp add: envs evals)
  have c7: "toggle_flash 2 flash_env_ok flash_start =
     Some \<lparr>fl_serial = None, fl_closed = [close_port s4],
           fl_steps =
             [FindDevice, OpenSerialLink (Some ''/dev/ttyACM0''), RegisterWindow_exec,
              SaveAndEncode ''print(1)'' ''/home/user/mu_code/studuinobit/usr3.py'' ''\<newline>'',
              RebootAndPrompt,
              SbfsPut ''/home/user/mu_code/studuinobit/usr3.py'' ''usr/usr3.py'',
              SbfsExecute [''import machine'',
                           ''machine.nvs_setint('' @ [CHR 0x22] @ ''lastSelected'' @
                             [CHR 0x22] @ '', 3)''],
              Reboot, StatusMessage ''Transfer success'', CloseSerialLink]\<rparr>"
    using toggle_flash_order [of flash_env_ok 2 flash_start]
      find_device_studuinobit_port opens' rb1 rb2
    by (simp add: envs evals)
  from c3 have c3': "toggle_flash 2 flash_env_cancel flash_start =
     Some \<lparr>fl_serial = None,
           fl_closed =
             [new_port\<lparr>q_name := ''/dev/ttyACM0'', q_is_open := False, q_dtr := True,
                q_baud := Some 115200,
                q_log := [SetPortName ''/dev/ttyACM0'', Open True, SetDataTerminalReady True,
                          SetBaudRate 115200, Close]\<rparr>],
           fl_steps = [FindDevice, OpenSerialLink (Some ''/dev/ttyACM0''),
                       RegisterWindow_exec, CloseSerialLink]\<rparr>"
    by (simp add: opened_def close_port_def new_port_def)
  from c1 c2 c3' c4 c5 c6 c7 show ?thesis by simp
qed
text \<open>
  The counterexample to C6 as stated. In the run where every step succeeds, the serial
  session is opened (second step) before the slot is selected and the buffer persisted
  (third and fourth step). And when the port cannot be opened, the run ends with the
  report of that failure as its first failure: no slot was selected and nothing was
  persisted before.
\<close>

theorem toggle_flash_order_counterexample:
  "map_option fl_steps (toggle_flash 2 flash_env_ok flash_start) =
     Some [FindDevice, OpenSerialLink (Some ''/dev/ttyACM0''), RegisterWindow_exec,
           SaveAndEncode ''print(1)'' ''/home/user/mu_code/studuinobit/usr3.py'' ''\<newline>'',
           RebootAndPrompt,
           SbfsPut ''/home/user/mu_code/studuinobit/usr3.py'' ''usr/usr3.py'',
           SbfsExecute [''import machine'',
                        ''machine.nvs_setint('' @ [CHR 0x22] @ ''lastSelected'' @ [CHR 0x22] @
                          '', 3)''],
           Reboot, StatusMessage ''Transfer success'', CloseSerialLink] \<and>
   map_option fl_steps (toggle_flash 2 flash_env_no_open flash_start) =
     Some [FindDevice, OpenSerialLink (Some ''/dev/ttyACM0''),
           ShowMessage message information]"
  using flash_env_ok_run flash_env_no_open_run by auto

end
